theory Spec2Isabelle
  imports Complex_Main
begin

section \<open>Values: NumPy float64 scalars\<close>

text \<open>
  Every number the notebooks compute with is a NumPy \<open>float64\<close>. The model keeps the
  four kinds of value such a scalar can have: a finite number, NaN (which pandas also uses
  for a missing rating), and the two infinities. Finite values are real numbers. The
  arithmetic of this section is exact: it does not round and does not overflow. The
  double-precision arithmetic that NumPy performs follows in the next section. Arithmetic
  on these scalars never raises; a division by zero gives an infinity or NaN (NumPy only
  prints a warning).
\<close>

datatype float64 = Fin real | NaN | PInf | NInf

fun is_finite :: "float64 \<Rightarrow> bool" where
  "is_finite (Fin x) = True"
| "is_finite NaN = False"
| "is_finite PInf = False"
| "is_finite NInf = False"

fun fneg :: "float64 \<Rightarrow> float64" where
  "fneg (Fin x) = Fin (- x)"
| "fneg NaN = NaN"
| "fneg PInf = NInf"
| "fneg NInf = PInf"

fun fadd :: "float64 \<Rightarrow> float64 \<Rightarrow> float64" where
  "fadd (Fin x) (Fin y) = Fin (x + y)"
| "fadd NaN b = NaN"
| "fadd a NaN = NaN"
| "fadd PInf NInf = NaN"
| "fadd NInf PInf = NaN"
| "fadd PInf b = PInf"
| "fadd a PInf = PInf"
| "fadd NInf b = NInf"
| "fadd a NInf = NInf"

definition fsub :: "float64 \<Rightarrow> float64 \<Rightarrow> float64" where
  "fsub a b = fadd a (fneg b)"

fun inf_of_sign :: "real \<Rightarrow> float64" where
  "inf_of_sign x = (if 0 < x then PInf else if x < 0 then NInf else NaN)"

fun fmul :: "float64 \<Rightarrow> float64 \<Rightarrow> float64" where
  "fmul (Fin x) (Fin y) = Fin (x * y)"
| "fmul NaN b = NaN"
| "fmul a NaN = NaN"
| "fmul PInf (Fin y) = inf_of_sign y"
| "fmul NInf (Fin y) = inf_of_sign (- y)"
| "fmul (Fin x) PInf = inf_of_sign x"
| "fmul (Fin x) NInf = inf_of_sign (- x)"
| "fmul PInf PInf = PInf"
| "fmul NInf NInf = PInf"
| "fmul PInf NInf = NInf"
| "fmul NInf PInf = NInf"

fun fdiv :: "float64 \<Rightarrow> float64 \<Rightarrow> float64" where
  "fdiv (Fin x) (Fin y) = (if y \<noteq> 0 then Fin (x / y) else inf_of_sign x)"
| "fdiv NaN b = NaN"
| "fdiv a NaN = NaN"
| "fdiv (Fin x) PInf = Fin 0"
| "fdiv (Fin x) NInf = Fin 0"
| "fdiv PInf (Fin y) = (if 0 \<le> y then PInf else NInf)"
| "fdiv NInf (Fin y) = (if 0 \<le> y then NInf else PInf)"
| "fdiv PInf PInf = NaN"
| "fdiv PInf NInf = NaN"
| "fdiv NInf PInf = NaN"
| "fdiv NInf NInf = NaN"

section \<open>Double-precision arithmetic\<close>

text \<open>
  The functions above compute with the finite values as real numbers and never round:
  they say what the notebooks' formulas mean. What NumPy computes is the IEEE 754
  binary64 result of each single operation: the exact result rounded to the nearest
  double, a tie going to the even significand, and an infinity once the rounded magnitude
  reaches \<open>2^1024\<close>. \<open>rne\<close> rounds a real number to the nearest integer, ties to even;
  \<open>exponent64 x\<close> is the binary exponent of \<open>x\<close>, not below \<open>-1022\<close>, the exponent of the
  subnormal numbers; \<open>round64 x\<close> is the multiple of \<open>2^(exponent64 x - 52)\<close> nearest to
  \<open>x\<close>. The sign of zero is not modelled.
\<close>

definition rne :: "real \<Rightarrow> int" where
  "rne m =
     (let f = \<lfloor>m\<rfloor>; d = m - of_int f
      in if d < 1 / 2 then f else if 1 / 2 < d then f + 1 else if even f then f else f + 1)"

definition exponent64 :: "real \<Rightarrow> int" where
  "exponent64 x = max \<lfloor>log 2 \<bar>x\<bar>\<rfloor> (- 1022)"

definition round64 :: "real \<Rightarrow> float64" where
  "round64 x =
     (if x = 0 then Fin 0
      else
        (let ulp = 2 powi (exponent64 x - 52);
             y = of_int (rne (x / ulp)) * ulp
         in if 2 ^ 1024 \<le> \<bar>y\<bar> then (if 0 < x then PInf else NInf) else Fin y))"

text \<open>
  The four operations on doubles: on two finite values the rounded exact result, and on
  NaN and the infinities what the exact functions above give.
\<close>

fun add64 :: "float64 \<Rightarrow> float64 \<Rightarrow> float64" where
  "add64 (Fin x) (Fin y) = round64 (x + y)"
| "add64 a b = fadd a b"


fun mul64 :: "float64 \<Rightarrow> float64 \<Rightarrow> float64" where
  "mul64 (Fin x) (Fin y) = round64 (x * y)"
| "mul64 a b = fmul a b"

fun div64 :: "float64 \<Rightarrow> float64 \<Rightarrow> float64" where
  "div64 (Fin x) (Fin y) = (if y \<noteq> 0 then round64 (x / y) else inf_of_sign x)"
| "div64 a b = fdiv a b"

section \<open>Errors and lifted arithmetic\<close>

text \<open>
  The only exceptions the notebooks' expressions can raise are pandas' \<open>KeyError\<close> (a label
  that is not in an index) and scikit-learn's \<open>ValueError\<close> (a NaN or an infinity handed to
  \<open>cosine_similarity\<close>). An expression is evaluated left to right, so the error of the left
  operand wins.
\<close>

datatype error = KeyError | ValueError

definition lift2 ::
  "(float64 \<Rightarrow> float64 \<Rightarrow> float64) \<Rightarrow> error + float64 \<Rightarrow> error + float64 \<Rightarrow> error + float64" where
  "lift2 f a b =
     (case a of Inl e \<Rightarrow> Inl e
      | Inr x \<Rightarrow> (case b of Inl e \<Rightarrow> Inl e | Inr y \<Rightarrow> Inr (f x y)))"

definition add_r :: "error + float64 \<Rightarrow> error + float64 \<Rightarrow> error + float64" where
  "add_r = lift2 fadd"

definition sub_r :: "error + float64 \<Rightarrow> error + float64 \<Rightarrow> error + float64" where
  "sub_r = lift2 fsub"

definition mul_r :: "error + float64 \<Rightarrow> error + float64 \<Rightarrow> error + float64" where
  "mul_r = lift2 fmul"

definition div_r :: "error + float64 \<Rightarrow> error + float64 \<Rightarrow> error + float64" where
  "div_r = lift2 fdiv"

section \<open>pandas Series and DataFrame\<close>

text \<open>
  A Series is a list of labelled values; a DataFrame has row labels (\<open>index\<close>), column
  labels and a matrix of values, one list per row. \<open>df.loc[r]\<close> is the row \<open>r\<close> as a
  Series labelled by the columns, and \<open>s[c]\<close> reads a Series by label; both raise
  \<open>KeyError\<close> for a label that is absent.
\<close>

type_synonym series = "(string \<times> float64) list"

record frame =
  index :: "string list"
  columns :: "string list"
  vals :: "float64 list list"

definition getitem :: "series \<Rightarrow> string \<Rightarrow> error + float64" where
  "getitem s c = (case map_of s c of None \<Rightarrow> Inl KeyError | Some v \<Rightarrow> Inr v)"

definition loc :: "frame \<Rightarrow> string \<Rightarrow> error + series" where
  "loc df r =
     (case map_of (zip (index df) (vals df)) r of
        None \<Rightarrow> Inl KeyError
      | Some row \<Rightarrow> Inr (zip (columns df) row))"

text \<open>The chained lookup \<open>df.loc[r][c]\<close> of the notebooks.\<close>

definition loc_at :: "frame \<Rightarrow> string \<Rightarrow> string \<Rightarrow> error + float64" where
  "loc_at df r c = (case loc df r of Inl e \<Rightarrow> Inl e | Inr s \<Rightarrow> getitem s c)"

section \<open>The prediction expressions\<close>

text \<open>
  The notebooks write the prediction out by hand, always for two peers:
  \<^verbatim>\<open>(sim.loc[t][p1] * df.loc[p1][i] + sim.loc[t][p2] * df.loc[p2][i])
     / (sim.loc[t][p1] + sim.loc[t][p2])\<close>
  and, for the mean-centred variant,
  \<^verbatim>\<open>user_means[t] + (sim.loc[t][p1] * means_data_frame.loc[p1][i] + ...) / (...)\<close>.
  \<open>prediction\<close> and \<open>mean_prediction\<close> are these two expressions with the frames and the
  labels they read as arguments.
\<close>

definition prediction ::
  "frame \<Rightarrow> frame \<Rightarrow> string \<Rightarrow> string \<Rightarrow> string \<Rightarrow> string \<Rightarrow> error + float64" where
  "prediction sim df t p1 p2 i =
     div_r
       (add_r (mul_r (loc_at sim t p1) (loc_at df p1 i)) (mul_r (loc_at sim t p2) (loc_at df p2 i)))
       (add_r (loc_at sim t p1) (loc_at sim t p2))"

definition mean_prediction ::
  "series \<Rightarrow> frame \<Rightarrow> frame \<Rightarrow> string \<Rightarrow> string \<Rightarrow> string \<Rightarrow> string \<Rightarrow> error + float64" where
  "mean_prediction user_means sim means_df t p1 p2 i =
     add_r (getitem user_means t) (prediction sim means_df t p1 p2 i)"

text \<open>
  The raw prediction as NumPy evaluates it: the same expression, the two products, the
  two sums and the quotient each rounded to a double.
\<close>

definition prediction64 ::
  "frame \<Rightarrow> frame \<Rightarrow> string \<Rightarrow> string \<Rightarrow> string \<Rightarrow> string \<Rightarrow> error + float64" where
  "prediction64 sim df t p1 p2 i =
     lift2 div64
       (lift2 add64 (lift2 mul64 (loc_at sim t p1) (loc_at df p1 i))
                    (lift2 mul64 (loc_at sim t p2) (loc_at df p2 i)))
       (lift2 add64 (loc_at sim t p1) (loc_at sim t p2))"

section \<open>Library routines the notebooks call\<close>

subsection \<open>Building and reshaping frames\<close>

text \<open>
  \<open>pd.DataFrame(data, index=...)\<close> takes a dictionary of columns; the values of the frame
  are the columns transposed. (pandas refuses columns whose length differs from the
  index; every column of the notebooks has one value per user.)
  \<open>pd.DataFrame(matrix, index=..., columns=...)\<close> labels a matrix that is given by rows.
\<close>

definition DataFrame :: "(string \<times> float64 list) list \<Rightarrow> string list \<Rightarrow> frame" where
  "DataFrame d idx = \<lparr>index = idx, columns = map fst d, vals = transpose (map snd d)\<rparr>"

definition DataFrame_matrix :: "float64 list list \<Rightarrow> string list \<Rightarrow> string list \<Rightarrow> frame" where
  "DataFrame_matrix m idx cols = \<lparr>index = idx, columns = cols, vals = m\<rparr>"

text \<open>\<open>df.fillna(v)\<close> replaces every NaN; \<open>df.T\<close> swaps rows and columns.\<close>

definition fillna :: "frame \<Rightarrow> float64 \<Rightarrow> frame" where
  "fillna df v = df\<lparr>vals := map (map (\<lambda>x. if x = NaN then v else x)) (vals df)\<rparr>"

definition T_frame :: "frame \<Rightarrow> frame" where
  "T_frame df = \<lparr>index = columns df, columns = index df, vals = transpose (vals df)\<rparr>"

subsection \<open>scikit-learn's cosine similarity\<close>

text \<open>
  \<open>cosine_similarity(X)\<close> refuses an input with a NaN or an infinity (\<open>ValueError\<close>),
  divides every row by its Euclidean norm (a zero norm is replaced by 1) and returns the
  dot products of the normalised rows.
\<close>

definition finite_value :: "float64 \<Rightarrow> real option" where
  "finite_value v = (case v of Fin x \<Rightarrow> Some x | _ \<Rightarrow> None)"

definition finite_matrix :: "float64 list list \<Rightarrow> real list list option" where
  "finite_matrix m = those (map (\<lambda>row. those (map finite_value row)) m)"

definition row_norm :: "real list \<Rightarrow> real" where
  "row_norm xs = sqrt (sum_list (map (\<lambda>x. x * x) xs))"

definition normalize_row :: "real list \<Rightarrow> real list" where
  "normalize_row xs = (let n = row_norm xs; n' = (if n = 0 then 1 else n) in map (\<lambda>x. x / n') xs)"

definition dot :: "real list \<Rightarrow> real list \<Rightarrow> real" where
  "dot xs ys = sum_list (map (\<lambda>(x, y). x * y) (zip xs ys))"

definition cosine_similarity :: "float64 list list \<Rightarrow> error + float64 list list" where
  "cosine_similarity X =
     (case finite_matrix X of
        None \<Rightarrow> Inl ValueError
      | Some R \<Rightarrow>
          (let N = map normalize_row R
           in Inr (map (\<lambda>x. map (\<lambda>y. Fin (dot x y)) N) N)))"

subsection \<open>Row means and mean-centring\<close>

text \<open>
  \<open>df.mean(axis=1)\<close> is the Series of the rows' means over the values that are not NaN;
  a row with no such value has the mean NaN.
\<close>

definition row_mean :: "float64 list \<Rightarrow> float64" where
  "row_mean row =
     (let obs = filter (\<lambda>v. v \<noteq> NaN) row
      in if obs = [] then NaN else fdiv (foldr fadd obs (Fin 0)) (Fin (real (length obs))))"

definition mean_axis1 :: "frame \<Rightarrow> series" where
  "mean_axis1 df = zip (index df) (map row_mean (vals df))"

text \<open>
  The centring loop of the notebooks,
  \<^verbatim>\<open>for user in means_data_frame.index:
      means_data_frame.loc[user] = means_data_frame.loc[user].subtract(user_means[user])\<close>
  threads the frame through one assignment per user. \<open>user\<close> runs over the index from
  which \<open>user_means\<close> was built, so the loop visits each user with that user's mean and no
  lookup in it can fail. A NaN stays NaN under the subtraction.
\<close>

definition subtract_row :: "frame \<Rightarrow> string \<Rightarrow> float64 \<Rightarrow> frame" where
  "subtract_row df user m =
     df\<lparr>vals := map (\<lambda>(u, row). if u = user then map (\<lambda>v. fsub v m) row else row)
                    (zip (index df) (vals df))\<rparr>"

definition mean_center :: "frame \<Rightarrow> frame" where
  "mean_center df = fold (\<lambda>(user, m) d. subtract_row d user m) (mean_axis1 df) df"





subsection \<open>pandas' Pearson correlation\<close>

text \<open>
  \<open>df.corr()\<close> correlates the columns of the frame pairwise, each pair over the rows in
  which both values are finite (at least one such row, else NaN):
  the covariance sum divided by the square root of the product of the two sums of squared
  deviations, NaN when that divisor is zero.
\<close>

definition paired :: "float64 list \<Rightarrow> float64 list \<Rightarrow> (real \<times> real) list" where
  "paired xs ys =
     List.map_filter
       (\<lambda>(x, y). case (x, y) of (Fin a, Fin b) \<Rightarrow> Some (a, b) | _ \<Rightarrow> None)
       (zip xs ys)"

definition pearson :: "float64 list \<Rightarrow> float64 list \<Rightarrow> float64" where
  "pearson xs ys =
     (let ps = paired xs ys; n = real (length ps)
      in if length ps < 1 then NaN
         else
           (let mx = sum_list (map fst ps) / n;
                my = sum_list (map snd ps) / n;
                ssx = sum_list (map (\<lambda>(a, b). (a - mx) * (a - mx)) ps);
                ssy = sum_list (map (\<lambda>(a, b). (b - my) * (b - my)) ps);
                cov = sum_list (map (\<lambda>(a, b). (a - mx) * (b - my)) ps);
                divisor = sqrt (ssx * ssy)
            in if divisor \<noteq> 0 then Fin (cov / divisor) else NaN))"

definition corr :: "frame \<Rightarrow> frame" where
  "corr df =
     (let cols = transpose (vals df)
      in \<lparr>index = columns df, columns = columns df,
          vals = map (\<lambda>x. map (\<lambda>y. pearson x y) cols) cols\<rparr>)"

section \<open>The notebooks' cells\<close>

subsection \<open>The rating matrix\<close>

definition data :: "(string \<times> float64 list) list" where
  "data =
     [(''item-1'', [Fin 7, Fin 6, NaN, Fin 1, Fin 1]),
      (''item-2'', [Fin 6, Fin 7, Fin 3, Fin 2, NaN]),
      (''item-3'', [Fin 7, NaN, Fin 3, Fin 2, Fin 1]),
      (''item-4'', [Fin 4, Fin 4, Fin 1, Fin 3, Fin 2]),
      (''item-5'', [Fin 5, Fin 3, Fin 1, Fin 3, Fin 3]),
      (''item-6'', [Fin 4, Fin 4, NaN, Fin 4, Fin 3])]"

definition data_frame :: frame where
  "data_frame = DataFrame data [''user-1'', ''user-2'', ''user-3'', ''user-4'', ''user-5'']"

subsection \<open>Cosine similarity notebook\<close>

definition cosine_similarity_raw :: "error + frame" where
  "cosine_similarity_raw =
     (case cosine_similarity (vals (fillna data_frame (Fin 0))) of
        Inl e \<Rightarrow> Inl e
      | Inr m \<Rightarrow> Inr (DataFrame_matrix m (index data_frame) (index data_frame)))"

definition user_means :: series where
  "user_means = mean_axis1 data_frame"

definition means_data_frame :: frame where
  "means_data_frame = mean_center data_frame"

definition cosine_similarity_mean :: "error + frame" where
  "cosine_similarity_mean =
     (case cosine_similarity (vals (fillna means_data_frame (Fin 0))) of
        Inl e \<Rightarrow> Inl e
      | Inr m \<Rightarrow> Inr (DataFrame_matrix m (index data_frame) (index data_frame)))"

definition prediction_user_3_item_1 :: "error + float64" where
  "prediction_user_3_item_1 =
     (case cosine_similarity_raw of
        Inl e \<Rightarrow> Inl e
      | Inr sim \<Rightarrow> prediction sim data_frame ''user-3'' ''user-1'' ''user-2'' ''item-1'')"

definition prediction_user_3_item_6 :: "error + float64" where
  "prediction_user_3_item_6 =
     (case cosine_similarity_raw of
        Inl e \<Rightarrow> Inl e
      | Inr sim \<Rightarrow> prediction sim data_frame ''user-3'' ''user-1'' ''user-2'' ''item-6'')"

definition mean_prediction_user_3_item_1 :: "error + float64" where
  "mean_prediction_user_3_item_1 =
     (case cosine_similarity_mean of
        Inl e \<Rightarrow> Inl e
      | Inr sim \<Rightarrow>
          mean_prediction user_means sim means_data_frame
            ''user-3'' ''user-1'' ''user-2'' ''item-1'')"

definition mean_prediction_user_3_item_6 :: "error + float64" where
  "mean_prediction_user_3_item_6 =
     (case cosine_similarity_mean of
        Inl e \<Rightarrow> Inl e
      | Inr sim \<Rightarrow>
          mean_prediction user_means sim means_data_frame
            ''user-3'' ''user-1'' ''user-2'' ''item-6'')"

subsection \<open>Pearson correlation notebook\<close>

text \<open>
  The Pearson notebook rebuilds the same \<open>data_frame\<close>, \<open>user_means\<close> and
  \<open>means_data_frame\<close> and reuses the names of the four predictions; here its predictions
  carry the prefix \<open>pearson\<close>.
\<close>

definition correlation :: frame where
  "correlation = corr (T_frame data_frame)"

definition pearson_prediction_user_3_item_1 :: "error + float64" where
  "pearson_prediction_user_3_item_1 =
     prediction correlation data_frame ''user-3'' ''user-1'' ''user-2'' ''item-1''"

definition pearson_prediction_user_3_item_6 :: "error + float64" where
  "pearson_prediction_user_3_item_6 =
     prediction correlation data_frame ''user-3'' ''user-1'' ''user-2'' ''item-6''"

definition pearson_mean_prediction_user_3_item_1 :: "error + float64" where
  "pearson_mean_prediction_user_3_item_1 =
     mean_prediction user_means correlation means_data_frame
       ''user-3'' ''user-1'' ''user-2'' ''item-1''"

definition pearson_mean_prediction_user_3_item_6 :: "error + float64" where
  "pearson_mean_prediction_user_3_item_6 =
     mean_prediction user_means correlation means_data_frame
       ''user-3'' ''user-1'' ''user-2'' ''item-6''"

section \<open>The predictor as the specification words it\<close>

text \<open>
  Modelled from the spec: the contract \<open>predict\<close> of section 4.1, steps 2 to 5, over a list
  of chosen peers. The repository has no function of this name; it has the two-peer
  expressions \<open>prediction\<close> and \<open>mean_prediction\<close> above. Lookups and arithmetic are
  those of the notebooks. \<open>rating_value\<close> is the raw rating, or the rating minus the
  peer's mean when \<open>centered\<close>; the weighted sum is divided by the sum of the similarities,
  and \<open>means[target]\<close> is added when \<open>centered\<close>.
\<close>

definition rating_value :: "frame \<Rightarrow> series \<Rightarrow> bool \<Rightarrow> string \<Rightarrow> string \<Rightarrow> error + float64" where
  "rating_value ratings means centered peer item =
     (if centered then sub_r (loc_at ratings peer item) (getitem means peer)
      else loc_at ratings peer item)"

fun sum_r :: "(error + float64) list \<Rightarrow> error + float64" where
  "sum_r [] = Inr (Fin 0)"
| "sum_r (x # xs) = add_r x (sum_r xs)"

definition predict ::
  "frame \<Rightarrow> frame \<Rightarrow> series \<Rightarrow> string \<Rightarrow> string \<Rightarrow> string list \<Rightarrow> bool \<Rightarrow> error + float64" where
  "predict ratings similarity means target item peers centered =
     (let weighted =
            sum_r (map (\<lambda>p. mul_r (loc_at similarity target p)
                                  (rating_value ratings means centered p item)) peers);
          total = sum_r (map (\<lambda>p. loc_at similarity target p) peers);
          normalized = div_r weighted total
      in if centered then add_r (getitem means target) normalized else normalized)"

text \<open>
  Modelled from the spec: the neighbour selection of section 4.1, step 1, which the
  notebooks do by eye. The candidates are the entities of the rating matrix other than
  the target that have a rating for the item (not NaN) and a finite similarity to the
  target; they are sorted by descending similarity, ties staying in the order of the
  index, and the first \<open>k\<close> are chosen.
\<close>

definition observed :: "frame \<Rightarrow> string \<Rightarrow> string \<Rightarrow> bool" where
  "observed ratings p item =
     (case loc_at ratings p item of Inl e \<Rightarrow> False | Inr v \<Rightarrow> v \<noteq> NaN)"

definition similarity_value :: "frame \<Rightarrow> string \<Rightarrow> string \<Rightarrow> real option" where
  "similarity_value similarity target p =
     (case loc_at similarity target p of Inl e \<Rightarrow> None | Inr v \<Rightarrow> finite_value v)"

definition candidates :: "frame \<Rightarrow> frame \<Rightarrow> string \<Rightarrow> string \<Rightarrow> (string \<times> real) list" where
  "candidates similarity ratings target item =
     List.map_filter
       (\<lambda>p. if p \<noteq> target \<and> observed ratings p item
            then map_option (\<lambda>s. (p, s)) (similarity_value similarity target p)
            else None)
       (index ratings)"

definition top_k :: "frame \<Rightarrow> frame \<Rightarrow> string \<Rightarrow> string \<Rightarrow> nat \<Rightarrow> string list" where
  "top_k similarity ratings target item k =
     map fst (take k (sort_key (\<lambda>(p, s). - s) (candidates similarity ratings target item)))"

section \<open>Small frames for the examples\<close>

text \<open>
  Three users and one item; user \<open>c\<close> has no rating, and its similarities to \<open>a\<close> and
  \<open>b\<close> are \<open>1/2\<close> and \<open>-1/2\<close>, which sum to zero.
\<close>

definition opposed_ratings :: frame where
  "opposed_ratings = DataFrame [(''item'', [Fin 4, Fin 2, NaN])] [''a'', ''b'', ''c'']"

definition opposed_similarity :: frame where
  "opposed_similarity =
     DataFrame_matrix
       [[Fin 1, Fin 0, Fin (1 / 2)],
        [Fin 0, Fin 1, Fin (- (1 / 2))],
        [Fin (1 / 2), Fin (- (1 / 2)), Fin 1]]
       [''a'', ''b'', ''c''] [''a'', ''b'', ''c'']"

text \<open>
  Three users and one item again; the similarity of \<open>c\<close> to \<open>a\<close> and to \<open>b\<close> is the double
  nearest to 0.1, which is \<open>3602879701896397 / 2^55\<close>. In \<open>tenth_ratings\<close> both peers rate
  the item 3, in \<open>level_ratings\<close> both rate it 4.
\<close>

definition tenth_similarity :: frame where
  "tenth_similarity =
     DataFrame_matrix
       [[Fin 1, Fin (1 / 2), Fin (3602879701896397 / 2 ^ 55)],
        [Fin (1 / 2), Fin 1, Fin (3602879701896397 / 2 ^ 55)],
        [Fin (3602879701896397 / 2 ^ 55), Fin (3602879701896397 / 2 ^ 55), Fin 1]]
       [''a'', ''b'', ''c''] [''a'', ''b'', ''c'']"

definition tenth_ratings :: frame where
  "tenth_ratings = DataFrame [(''item'', [Fin 3, Fin 3, NaN])] [''a'', ''b'', ''c'']"

definition level_ratings :: frame where
  "level_ratings = DataFrame [(''item'', [Fin 4, Fin 4, NaN])] [''a'', ''b'', ''c'']"

section \<open>Auxiliary definitions for the proofs\<close>

text \<open>
  What the centring loop does to one row: \<open>center_row\<close> subtracts the row's own mean, and
  \<open>center_with\<close> is the effect of the assignments for the users of a list of means on
  a labelled row.
\<close>

definition center_row :: "float64 list \<Rightarrow> float64 list" where
  "center_row row = map (\<lambda>v. fsub v (row_mean row)) row"

definition center_with :: "series \<Rightarrow> string \<times> float64 list \<Rightarrow> float64 list" where
  "center_with ums =
     (\<lambda>(u, row). case map_of ums u of None \<Rightarrow> row | Some m \<Rightarrow> map (\<lambda>v. fsub v m) row)"



section \<open>Lookups and lifted arithmetic\<close>

lemma fadd_zero_right: "fadd a (Fin 0) = a"
  by (cases a) simp_all

lemma add_r_zero_right: "add_r a (Inr (Fin 0)) = a"
  by (cases a) (simp_all add: add_r_def lift2_def fadd_zero_right)

lemma sum_r_pair: "sum_r [a, b] = add_r a b"
  by (cases a; cases b) (simp_all add: add_r_def lift2_def fadd_zero_right)

lemma sum_r_finite:
  assumes "\<forall>p\<in>set ps. f p = Inr (Fin (g p))"
  shows "sum_r (map f ps) = Inr (Fin (sum_list (map g ps)))"
  using assms by (induction ps) (simp_all add: add_r_def lift2_def)

lemma fdiv_zero_not_finite: "\<not> is_finite (fdiv n (Fin 0))"
  by (cases n) simp_all

lemma fsub_Fin_NaN: "(fsub v (Fin m) = NaN) = (v = NaN)"
  by (cases v) (simp_all add: fsub_def)

lemma getitem_absent: "c \<notin> fst ` set s \<Longrightarrow> getitem s c = Inl KeyError"
proof -
  assume "c \<notin> fst ` set s"
  then have "map_of s c = None" unfolding map_of_eq_None_iff .
  then show ?thesis by (simp add: getitem_def)
qed

lemma getitem_error: "getitem s c = Inl e \<Longrightarrow> e = KeyError"
  by (auto simp: getitem_def split: option.splits)

lemma loc_at_absent_row: "t \<notin> set (index df) \<Longrightarrow> loc_at df t c = Inl KeyError"
proof -
  assume "t \<notin> set (index df)"
  then have "t \<notin> fst ` set (zip (index df) (vals df))"
    by (auto dest: set_zip_leftD)
  then have "map_of (zip (index df) (vals df)) t = None"
    unfolding map_of_eq_None_iff .
  then show ?thesis by (simp add: loc_at_def loc_def)
qed

lemma loc_at_absent_column: "c \<notin> set (columns df) \<Longrightarrow> loc_at df r c = Inl KeyError"
proof (cases "loc df r")
  case (Inl e)
  then have "e = KeyError" by (auto simp: loc_def split: option.splits)
  with Inl show ?thesis by (simp add: loc_at_def)
next
  case (Inr s)
  assume c: "c \<notin> set (columns df)"
  from Inr obtain row where "s = zip (columns df) row"
    by (auto simp: loc_def split: option.splits)
  with c have "c \<notin> fst ` set s" by (auto dest: set_zip_leftD)
  with Inr show ?thesis by (simp add: loc_at_def getitem_absent)
qed

lemma loc_at_error: "loc_at df r c = Inl e \<Longrightarrow> e = KeyError"
  by (auto simp: loc_at_def loc_def getitem_def split: option.splits sum.splits)

lemma prediction_finite:
  assumes "loc_at sim t p1 = Inr (Fin a)" and "loc_at sim t p2 = Inr (Fin b)"
    and "loc_at df p1 i = Inr (Fin r1)" and "loc_at df p2 i = Inr (Fin r2)"
    and "a + b \<noteq> 0"
  shows "prediction sim df t p1 p2 i = Inr (Fin ((a * r1 + b * r2) / (a + b)))"
  using assms by (simp add: prediction_def add_r_def mul_r_def div_r_def lift2_def)

lemma prediction_unknown:
  assumes "t \<notin> set (index sim) \<or> i \<notin> set (columns df)"
  shows "prediction sim df t p1 p2 i = Inl KeyError"
  using assms
  by (auto simp: prediction_def loc_at_absent_row loc_at_absent_column add_r_def mul_r_def
      div_r_def lift2_def split: sum.splits dest: loc_at_error)

lemma predict_raw_pair:
  "predict df sim means t i [p1, p2] False = prediction sim df t p1 p2 i"
  by (simp add: predict_def prediction_def rating_value_def sum_r_pair del: sum_r.simps)

lemma predict_centered_pair:
  "predict df sim means t i [p1, p2] True =
   add_r (getitem means t)
     (div_r (add_r (mul_r (loc_at sim t p1) (sub_r (loc_at df p1 i) (getitem means p1)))
                   (mul_r (loc_at sim t p2) (sub_r (loc_at df p2 i) (getitem means p2))))
            (add_r (loc_at sim t p1) (loc_at sim t p2)))"
  by (simp add: predict_def rating_value_def sum_r_pair del: sum_r.simps)

section \<open>The centring loop\<close>

lemma zip_map_zip:
  "zip xs (map f (zip xs ys)) = map (\<lambda>(x, y). (x, f (x, y))) (zip xs ys)"
proof (induction xs arbitrary: ys)
  case Nil
  then show ?case by simp
next
  case (Cons x xs)
  then show ?case by (cases ys) simp_all
qed

lemma zip_map_right: "zip xs (map f ys) = map (\<lambda>(x, y). (x, f y)) (zip xs ys)"
  by (simp add: zip_map2 case_prod_unfold)

lemma map_of_zip_map_right:
  "map_of (zip xs (map f ys)) x = map_option f (map_of (zip xs ys) x)"
  by (simp add: zip_map_right map_of_map)

lemma subtract_row_frame:
  "index (subtract_row d u m) = index d" "columns (subtract_row d u m) = columns d"
  "length (vals (subtract_row d u m)) = min (length (index d)) (length (vals d))"
  by (simp_all add: subtract_row_def)

text \<open>
  The loop invariant: after the assignments for the users of \<open>ums\<close> (each at most once),
  every row holds its values minus the mean listed for its label, and the labels are
  untouched.
\<close>

lemma fold_subtract_row:
  assumes "distinct (map fst ums)" and "length (index d) = length (vals d)"
  shows "vals (fold (\<lambda>(user, m) d. subtract_row d user m) ums d) =
           map (center_with ums) (zip (index d) (vals d)) \<and>
         index (fold (\<lambda>(user, m) d. subtract_row d user m) ums d) = index d \<and>
         columns (fold (\<lambda>(user, m) d. subtract_row d user m) ums d) = columns d"
  using assms
proof (induction ums arbitrary: d)
  case Nil
  have "(\<lambda>(u :: string, row :: float64 list). row) = snd" by auto
  with Nil show ?case by (simp add: center_with_def map_snd_zip)
next
  case (Cons a ums)
  obtain u m where a: "a = (u, m)" by (cases a)
  let ?d = "subtract_row d u m"
  from Cons.prems a have fresh: "map_of ums u = None" and dist: "distinct (map fst ums)"
    by (simp_all add: map_of_eq_None_iff)
  have len: "length (index ?d) = length (vals ?d)"
    using Cons.prems(2) by (simp add: subtract_row_frame)
  note ih = Cons.IH [OF dist len]
  have "map (center_with ums) (zip (index ?d) (vals ?d)) =
        map (center_with ((u, m) # ums)) (zip (index d) (vals d))"
    using fresh
    by (auto simp: subtract_row_def zip_map_zip center_with_def split: option.splits)
  with ih show ?case by (simp add: a subtract_row_frame)
qed

lemma mean_center_frame:
  assumes "distinct (index df)" and "length (index df) = length (vals df)"
  shows "vals (mean_center df) = map center_row (vals df)"
    and "index (mean_center df) = index df"
    and "columns (mean_center df) = columns df"
proof -
  have fst_means: "map fst (mean_axis1 df) = index df"
    using assms(2) by (simp add: mean_axis1_def)
  with assms(1) have dist: "distinct (map fst (mean_axis1 df))" by simp
  note fold = fold_subtract_row [OF dist assms(2), folded mean_center_def]
  from fold show "index (mean_center df) = index df" "columns (mean_center df) = columns df"
    by simp_all
  have "center_with (mean_axis1 df) ur = center_row (snd ur)"
    if "ur \<in> set (zip (index df) (vals df))" for ur
  proof -
    obtain u row where ur: "ur = (u, row)" by (cases ur)
    with that have "map_of (zip (index df) (vals df)) u = Some row"
      using assms(1) by (intro map_of_is_SomeI) (simp_all add: assms(2))
    then have "map_of (mean_axis1 df) u = Some (row_mean row)"
      by (simp add: mean_axis1_def map_of_zip_map_right)
    then show ?thesis by (simp add: ur center_with_def center_row_def)
  qed
  then have "map (center_with (mean_axis1 df)) (zip (index df) (vals df)) =
             map (\<lambda>ur. center_row (snd ur)) (zip (index df) (vals df))"
    by (intro map_cong) simp_all
  also have "\<dots> = map center_row (map snd (zip (index df) (vals df)))"
    by (simp add: o_def)
  also have "\<dots> = map center_row (vals df)"
    using assms(2) by (simp add: map_snd_zip)
  finally show "vals (mean_center df) = map center_row (vals df)"
    using fold by simp
qed

text \<open>An entry of the centred frame is the entry of the frame minus the mean of its row.\<close>

lemma loc_at_mean_center:
  assumes "distinct (index df)" and "length (index df) = length (vals df)"
  shows "loc_at (mean_center df) p i = sub_r (loc_at df p i) (getitem (mean_axis1 df) p)"
proof (cases "map_of (zip (index df) (vals df)) p")
  case None
  then show ?thesis
    by (simp add: loc_at_def loc_def mean_center_frame [OF assms] map_of_zip_map_right
        sub_r_def lift2_def)
next
  case (Some row)
  then have m: "map_of (mean_axis1 df) p = Some (row_mean row)"
    by (simp add: mean_axis1_def map_of_zip_map_right)
  show ?thesis
    by (cases "map_of (zip (columns df) row) i")
      (simp_all add: loc_at_def loc_def mean_center_frame [OF assms] map_of_zip_map_right
        Some m sub_r_def lift2_def getitem_def center_row_def)
qed

section \<open>Row means\<close>

lemma observed_reals:
  assumes "\<forall>v\<in>set row. v = NaN \<or> is_finite v"
  shows "\<exists>xs. filter (\<lambda>v. v \<noteq> NaN) row = map Fin xs"
  using assms
proof (induction row)
  case Nil
  then show ?case by simp
next
  case (Cons v row)
  then obtain xs where xs: "filter (\<lambda>v. v \<noteq> NaN) row = map Fin xs" by auto
  from Cons.prems have "v = NaN \<or> is_finite v" by simp
  then show ?case
  proof
    assume "v = NaN"
    with xs have "filter (\<lambda>v. v \<noteq> NaN) (v # row) = map Fin xs" by simp
    then show ?thesis by blast
  next
    assume "is_finite v"
    then obtain x where "v = Fin x" by (cases v) simp_all
    with xs have "filter (\<lambda>v. v \<noteq> NaN) (v # row) = map Fin (x # xs)" by simp
    then show ?thesis by blast
  qed
qed

lemma foldr_fadd_Fin: "foldr fadd (map Fin xs) (Fin 0) = Fin (sum_list xs)"
  by (induction xs) simp_all

lemma row_mean_Fin:
  assumes "filter (\<lambda>v. v \<noteq> NaN) row = map Fin xs" and "xs \<noteq> []"
  shows "row_mean row = Fin (sum_list xs / real (length xs))"
  using assms by (simp add: row_mean_def foldr_fadd_Fin)

lemma sum_list_deviations:
  fixes xs :: "real list"
  shows "sum_list (map (\<lambda>x. x - m) xs) = sum_list xs - real (length xs) * m"
  by (induction xs) (simp_all add: algebra_simps)

lemma row_mean_center_row:
  assumes "\<forall>v\<in>set row. v = NaN \<or> is_finite v" and "\<exists>v\<in>set row. is_finite v"
  shows "\<exists>m. row_mean row = Fin m \<and> row_mean (center_row row) = Fin 0"
proof -
  from observed_reals [OF assms(1)] obtain xs
    where xs: "filter (\<lambda>v. v \<noteq> NaN) row = map Fin xs" by blast
  from assms(2) obtain v where v: "v \<in> set row" "is_finite v" by blast
  from v(2) have "v \<noteq> NaN" by auto
  with v(1) have "v \<in> set (filter (\<lambda>v. v \<noteq> NaN) row)" by simp
  with xs have ne: "xs \<noteq> []" by auto
  define m where "m = sum_list xs / real (length xs)"
  have mean: "row_mean row = Fin m"
    unfolding m_def using xs ne by (rule row_mean_Fin)
  have "filter (\<lambda>v. v \<noteq> NaN) (center_row row) =
        map (\<lambda>v. fsub v (Fin m)) (filter (\<lambda>v. v \<noteq> NaN) row)"
    by (simp add: center_row_def mean filter_map o_def fsub_Fin_NaN)
  also have "\<dots> = map Fin (map (\<lambda>x. x - m) xs)"
    by (simp add: xs fsub_def o_def)
  finally have "row_mean (center_row row) =
      Fin (sum_list (map (\<lambda>x. x - m) xs) / real (length (map (\<lambda>x. x - m) xs)))"
    using ne by (intro row_mean_Fin) simp_all
  also have "sum_list (map (\<lambda>x. x - m) xs) = 0"
    using ne by (simp add: sum_list_deviations m_def)
  finally show ?thesis using mean by simp
qed

section \<open>Weighted averages of real numbers\<close>

lemma weighted_bounds:
  fixes s r :: "'a \<Rightarrow> real"
  assumes "\<forall>p\<in>set ps. 0 < s p \<and> lo \<le> r p \<and> r p \<le> hi"
  shows "lo * sum_list (map s ps) \<le> sum_list (map (\<lambda>p. s p * r p) ps) \<and>
         sum_list (map (\<lambda>p. s p * r p) ps) \<le> hi * sum_list (map s ps)"
  using assms
proof (induction ps)
  case Nil
  then show ?case by simp
next
  case (Cons p ps)
  then have "0 < s p" "lo \<le> r p" "r p \<le> hi" by simp_all
  then have a: "lo * s p \<le> s p * r p" and b: "s p * r p \<le> hi * s p"
    by (simp_all add: mult.commute)
  from Cons have c: "lo * sum_list (map s ps) \<le> sum_list (map (\<lambda>p. s p * r p) ps)"
    and d: "sum_list (map (\<lambda>p. s p * r p) ps) \<le> hi * sum_list (map s ps)"
    by simp_all
  have "lo * sum_list (map s (p # ps)) = lo * s p + lo * sum_list (map s ps)"
    and "hi * sum_list (map s (p # ps)) = hi * s p + hi * sum_list (map s ps)"
    by (simp_all add: distrib_left)
  with a b c d show ?case by (simp only: list.map sum_list.Cons) linarith
qed

lemma sum_list_pos:
  fixes s :: "'a \<Rightarrow> real"
  assumes "ps \<noteq> []" and "\<forall>p\<in>set ps. 0 < s p"
  shows "0 < sum_list (map s ps)"
  using assms
proof (induction ps)
  case Nil
  then show ?case by simp
next
  case (Cons p ps)
  then have "0 \<le> sum_list (map s ps)" by (cases ps) (auto intro: less_imp_le sum_list_nonneg)
  with Cons.prems show ?case by simp
qed

lemma same_rating:
  fixes a b r :: real
  assumes "a + b \<noteq> 0"
  shows "(a * r + b * r) / (a + b) = r"
proof -
  have "a * r + b * r = r * (a + b)" by (simp add: algebra_simps)
  with assms show ?thesis by simp
qed

lemma weighted_pair_bounds:
  fixes a b r1 r2 lo hi :: real
  assumes "0 < a" and "0 < b"
    and "(lo - r2) * b < (r1 - lo) * a" and "(r1 - hi) * a < (hi - r2) * b"
  shows "lo < (a * r1 + b * r2) / (a + b) \<and> (a * r1 + b * r2) / (a + b) < hi"
proof -
  have pos: "0 < a + b" using assms by simp
  have "lo * (a + b) < a * r1 + b * r2"
    using assms(3) by (simp add: algebra_simps)
  moreover have "a * r1 + b * r2 < hi * (a + b)"
    using assms(4) by (simp add: algebra_simps)
  ultimately show ?thesis
    using pos by (simp add: pos_less_divide_eq pos_divide_less_eq)
qed

lemma near:
  fixes v c tol lo hi :: real
  assumes "lo < v \<and> v < hi" and "c - tol \<le> lo" and "hi \<le> c + tol"
  shows "\<bar>v - c\<bar> < tol"
  using assms by (simp add: abs_less_iff)

text \<open>Comparing quotients by square roots: compare the squares.\<close>

lemma div_sqrt_less:
  fixes a b x y :: real
  assumes "0 \<le> a" and "0 \<le> b" and "0 < x" and "0 < y" and "a * a * y < b * b * x"
  shows "a / sqrt x < b / sqrt y"
proof -
  have "a / sqrt x = sqrt (a * a / x)" "b / sqrt y = sqrt (b * b / y)"
    using assms by (simp_all add: real_sqrt_divide real_sqrt_mult)
  moreover have "a * a / x < b * b / y"
    using assms by (simp add: field_simps)
  ultimately show ?thesis by simp
qed

lemma lower_div_sqrt:
  fixes lo b y :: real
  assumes "0 \<le> lo" and "0 \<le> b" and "0 < y" and "lo * lo * y < b * b"
  shows "lo < b / sqrt y"
  using div_sqrt_less [of lo b 1 y] assms by simp

lemma upper_div_sqrt:
  fixes hi b y :: real
  assumes "0 \<le> b" and "0 \<le> hi" and "0 < y" and "b * b < hi * hi * y"
  shows "b / sqrt y < hi"
  using div_sqrt_less [of b hi y 1] assms by simp

section \<open>Sorting four candidates\<close>

lemma sort_descending_acbd:
  fixes a b c d :: real
  assumes "d < b" and "b < c" and "c < a"
  shows "sort_key (\<lambda>(p, s). - s) [(p1, a), (p2, b), (p3, c), (p4, d)] =
           [(p1, a), (p3, c), (p2, b), (p4, d)]"
proof -
  have 2: "sort_key (\<lambda>(p, s). - s) [(p3, c), (p4, d)] = [(p3, c), (p4, d)]"
    using assms by simp
  have 3: "sort_key (\<lambda>(p, s). - s) [(p2, b), (p3, c), (p4, d)] = [(p3, c), (p2, b), (p4, d)]"
    using assms 2 by simp
  show ?thesis using assms 3 by simp
qed

lemma sort_descending_badc:
  fixes a b c d :: real
  assumes "c < d" and "d < a" and "a < b"
  shows "sort_key (\<lambda>(p, s). - s) [(p1, a), (p2, b), (p3, c), (p4, d)] =
           [(p2, b), (p1, a), (p4, d), (p3, c)]"
proof -
  have 2: "sort_key (\<lambda>(p, s). - s) [(p3, c), (p4, d)] = [(p4, d), (p3, c)]"
    using assms by simp
  have 3: "sort_key (\<lambda>(p, s). - s) [(p2, b), (p3, c), (p4, d)] = [(p2, b), (p4, d), (p3, c)]"
    using assms 2 by simp
  show ?thesis using assms 3 by simp
qed

lemma take_2_of_4: "map fst (take 2 [(p1, a), (p2, b), (p3, c), (p4, d)]) = [p1, p2]"
  by (simp add: numeral_2_eq_2)

section \<open>The notebooks' data\<close>

lemma data_frame_vals:
  "vals data_frame =
     [[Fin 7, Fin 6, Fin 7, Fin 4, Fin 5, Fin 4],
      [Fin 6, Fin 7, NaN, Fin 4, Fin 3, Fin 4],
      [NaN, Fin 3, Fin 3, Fin 1, Fin 1, NaN],
      [Fin 1, Fin 2, Fin 2, Fin 3, Fin 3, Fin 4],
      [Fin 1, NaN, Fin 1, Fin 2, Fin 3, Fin 3]]"
  by (simp add: data_frame_def DataFrame_def data_def)

lemma data_frame_labels:
  "index data_frame = [''user-1'', ''user-2'', ''user-3'', ''user-4'', ''user-5'']"
  "columns data_frame = [''item-1'', ''item-2'', ''item-3'', ''item-4'', ''item-5'', ''item-6'']"
  by (simp_all add: data_frame_def DataFrame_def data_def)

lemma data_frame_wf:
  "distinct (index data_frame)" "length (index data_frame) = length (vals data_frame)"
  by (simp_all add: data_frame_labels data_frame_vals)

lemma data_frame_ratings:
  "loc_at data_frame ''user-1'' ''item-1'' = Inr (Fin 7)"
  "loc_at data_frame ''user-2'' ''item-1'' = Inr (Fin 6)"
  "loc_at data_frame ''user-4'' ''item-1'' = Inr (Fin 1)"
  "loc_at data_frame ''user-5'' ''item-1'' = Inr (Fin 1)"
  "loc_at data_frame ''user-1'' ''item-6'' = Inr (Fin 4)"
  "loc_at data_frame ''user-2'' ''item-6'' = Inr (Fin 4)"
  "loc_at data_frame ''user-4'' ''item-6'' = Inr (Fin 4)"
  "loc_at data_frame ''user-5'' ''item-6'' = Inr (Fin 3)"
  "loc_at data_frame ''user-3'' ''item-1'' = Inr NaN"
  "loc_at data_frame ''user-3'' ''item-6'' = Inr NaN"
  by (simp_all add: loc_at_def loc_def getitem_def data_frame_vals data_frame_labels)

lemma user_means_values:
  "getitem user_means ''user-1'' = Inr (Fin (11 / 2))"
  "getitem user_means ''user-2'' = Inr (Fin (24 / 5))"
  "getitem user_means ''user-3'' = Inr (Fin 2)"
  by (simp_all add: user_means_def mean_axis1_def data_frame_labels data_frame_vals
      getitem_def row_mean_def)

lemma means_data_frame_ratings:
  "loc_at means_data_frame ''user-1'' ''item-1'' = Inr (Fin (3 / 2))"
  "loc_at means_data_frame ''user-2'' ''item-1'' = Inr (Fin (6 / 5))"
  unfolding means_data_frame_def loc_at_mean_center [OF data_frame_wf]
  by (simp_all add: data_frame_ratings user_means_values [unfolded user_means_def]
      sub_r_def lift2_def fsub_def)

lemma observed_item_1:
  "observed data_frame ''user-1'' ''item-1''" "observed data_frame ''user-2'' ''item-1''"
  "observed data_frame ''user-4'' ''item-1''" "observed data_frame ''user-5'' ''item-1''"
  by (simp_all add: observed_def data_frame_ratings)

lemma observed_item_6:
  "observed data_frame ''user-1'' ''item-6''" "observed data_frame ''user-2'' ''item-6''"
  "observed data_frame ''user-4'' ''item-6''" "observed data_frame ''user-5'' ''item-6''"
  by (simp_all add: observed_def data_frame_ratings)

text \<open>
  The candidates for a prediction for \<open>user-3\<close>: each of the four other users has a
  rating for \<open>item-1\<close> and for \<open>item-6\<close>.
\<close>

lemma candidates_user_3:
  assumes "loc_at sim ''user-3'' ''user-1'' = Inr (Fin a)"
    and "loc_at sim ''user-3'' ''user-2'' = Inr (Fin b)"
    and "loc_at sim ''user-3'' ''user-4'' = Inr (Fin c)"
    and "loc_at sim ''user-3'' ''user-5'' = Inr (Fin d)"
  shows "candidates sim data_frame ''user-3'' ''item-1'' =
           [(''user-1'', a), (''user-2'', b), (''user-4'', c), (''user-5'', d)]"
    and "candidates sim data_frame ''user-3'' ''item-6'' =
           [(''user-1'', a), (''user-2'', b), (''user-4'', c), (''user-5'', d)]"
  by (simp_all add: candidates_def data_frame_labels List.map_filter_simps observed_item_1
      observed_item_6 similarity_value_def finite_value_def assms)

subsection \<open>The raw cosine similarities of \<open>user-3\<close>\<close>

lemma finite_matrix_filled:
  "finite_matrix (vals (fillna data_frame (Fin 0))) =
     Some [[7, 6, 7, 4, 5, 4], [6, 7, 0, 4, 3, 4], [0, 3, 3, 1, 1, 0],
           [1, 2, 2, 3, 3, 4], [1, 0, 1, 2, 3, 3]]"
  by (simp add: fillna_def data_frame_vals finite_matrix_def finite_value_def)

lemma dot_scaled:
  "dot (map (\<lambda>x. x / a) xs) (map (\<lambda>y. y / b) ys) = dot xs ys / (a * b)"
proof (induction xs arbitrary: ys)
  case Nil
  then show ?case by (simp add: dot_def)
next
  case (Cons x xs)
  show ?case
  proof (cases ys)
    case Nil
    then show ?thesis by (simp add: dot_def)
  next
    case (Cons y ys')
    with Cons.IH [of ys'] show ?thesis
      by (simp add: dot_def add_divide_distrib)
  qed
qed

lemma dot_normalize_row:
  assumes "row_norm xs \<noteq> 0" and "row_norm ys \<noteq> 0"
  shows "dot (normalize_row xs) (normalize_row ys) = dot xs ys / (row_norm xs * row_norm ys)"
  using assms by (simp add: normalize_row_def Let_def dot_scaled)

lemma cosine_raw_row3:
  "\<exists>sim. cosine_similarity_raw = Inr sim \<and>
     loc_at sim ''user-3'' ''user-1'' = Inr (Fin (48 / (sqrt 20 * sqrt 191))) \<and>
     loc_at sim ''user-3'' ''user-2'' = Inr (Fin (28 / (sqrt 20 * sqrt 126))) \<and>
     loc_at sim ''user-3'' ''user-4'' = Inr (Fin (18 / (sqrt 20 * sqrt 43))) \<and>
     loc_at sim ''user-3'' ''user-5'' = Inr (Fin (8 / (sqrt 20 * sqrt 24)))"
proof -
  have n: "row_norm [7, 6, 7, 4, 5, 4] = sqrt 191" "row_norm [6, 7, 0, 4, 3, 4] = sqrt 126"
    "row_norm [0, 3, 3, 1, 1, 0] = sqrt 20" "row_norm [1, 2, 2, 3, 3, 4] = sqrt 43"
    "row_norm [1, 0, 1, 2, 3, 3] = sqrt 24"
    by (simp_all add: row_norm_def)
  have d: "dot [0, 3, 3, 1, 1, 0] [7, 6, 7, 4, 5, 4] = 48"
    "dot [0, 3, 3, 1, 1, 0] [6, 7, 0, 4, 3, 4] = 28"
    "dot [0, 3, 3, 1, 1, 0] [1, 2, 2, 3, 3, 4] = 18"
    "dot [0, 3, 3, 1, 1, 0] [1, 0, 1, 2, 3, 3] = 8"
    by (simp_all add: dot_def)
  have c:
    "dot (normalize_row [0, 3, 3, 1, 1, 0]) (normalize_row [7, 6, 7, 4, 5, 4]) =
       48 / (sqrt 20 * sqrt 191)"
    "dot (normalize_row [0, 3, 3, 1, 1, 0]) (normalize_row [6, 7, 0, 4, 3, 4]) =
       28 / (sqrt 20 * sqrt 126)"
    "dot (normalize_row [0, 3, 3, 1, 1, 0]) (normalize_row [1, 2, 2, 3, 3, 4]) =
       18 / (sqrt 20 * sqrt 43)"
    "dot (normalize_row [0, 3, 3, 1, 1, 0]) (normalize_row [1, 0, 1, 2, 3, 3]) =
       8 / (sqrt 20 * sqrt 24)"
    by (simp_all add: dot_normalize_row n d)
  show ?thesis
    by (simp add: cosine_similarity_raw_def cosine_similarity_def finite_matrix_filled
        data_frame_labels DataFrame_matrix_def Let_def loc_at_def loc_def getitem_def c)
qed

lemma cosine_raw_defined: "\<exists>sim. cosine_similarity_raw = Inr sim"
  using cosine_raw_row3 by blast

lemma cosine_raw_entries:
  assumes "cosine_similarity_raw = Inr sim"
  shows "loc_at sim ''user-3'' ''user-1'' = Inr (Fin (48 / (sqrt 20 * sqrt 191)))"
    and "loc_at sim ''user-3'' ''user-2'' = Inr (Fin (28 / (sqrt 20 * sqrt 126)))"
    and "loc_at sim ''user-3'' ''user-4'' = Inr (Fin (18 / (sqrt 20 * sqrt 43)))"
    and "loc_at sim ''user-3'' ''user-5'' = Inr (Fin (8 / (sqrt 20 * sqrt 24)))"
proof -
  from cosine_raw_row3 obtain sim' where c: "cosine_similarity_raw = Inr sim'"
    and s: "loc_at sim' ''user-3'' ''user-1'' = Inr (Fin (48 / (sqrt 20 * sqrt 191)))"
      "loc_at sim' ''user-3'' ''user-2'' = Inr (Fin (28 / (sqrt 20 * sqrt 126)))"
      "loc_at sim' ''user-3'' ''user-4'' = Inr (Fin (18 / (sqrt 20 * sqrt 43)))"
      "loc_at sim' ''user-3'' ''user-5'' = Inr (Fin (8 / (sqrt 20 * sqrt 24)))"
    by blast
  have "Inr sim' = (Inr sim :: error + frame)" using c [symmetric] assms by (rule trans)
  then have "sim' = sim" by (rule iffD1 [OF sum.inject(2)])
  with s show "loc_at sim ''user-3'' ''user-1'' = Inr (Fin (48 / (sqrt 20 * sqrt 191)))"
    and "loc_at sim ''user-3'' ''user-2'' = Inr (Fin (28 / (sqrt 20 * sqrt 126)))"
    and "loc_at sim ''user-3'' ''user-4'' = Inr (Fin (18 / (sqrt 20 * sqrt 43)))"
    and "loc_at sim ''user-3'' ''user-5'' = Inr (Fin (8 / (sqrt 20 * sqrt 24)))"
    by simp_all
qed

lemma cosine_raw_order:
  "28 / (sqrt 20 * sqrt 126) < 18 / (sqrt 20 * sqrt 43)"
  "18 / (sqrt 20 * sqrt 43) < 48 / (sqrt 20 * sqrt 191)"
  "8 / (sqrt 20 * sqrt 24) < 28 / (sqrt 20 * sqrt 126)"
proof -
  have "28 / sqrt 126 < 18 / sqrt 43" "18 / sqrt 43 < 48 / sqrt 191"
    "8 / sqrt 24 < 28 / sqrt 126"
    by (rule div_sqrt_less; simp)+
  then show "28 / (sqrt 20 * sqrt 126) < 18 / (sqrt 20 * sqrt 43)"
    "18 / (sqrt 20 * sqrt 43) < 48 / (sqrt 20 * sqrt 191)"
    "8 / (sqrt 20 * sqrt 24) < 28 / (sqrt 20 * sqrt 126)"
    by (simp_all add: field_simps)
qed

lemma cosine_top_2_items:
  assumes "cosine_similarity_raw = Inr sim"
  shows "top_k sim data_frame ''user-3'' ''item-1'' 2 = [''user-1'', ''user-4'']"
    and "top_k sim data_frame ''user-3'' ''item-6'' 2 = [''user-1'', ''user-4'']"
proof -
  note c = candidates_user_3 [OF cosine_raw_entries [OF assms]]
  note o = sort_descending_acbd [OF cosine_raw_order(3) cosine_raw_order(1) cosine_raw_order(2)]
  show "top_k sim data_frame ''user-3'' ''item-1'' 2 = [''user-1'', ''user-4'']"
    unfolding top_k_def c o by (rule take_2_of_4)
  show "top_k sim data_frame ''user-3'' ''item-6'' 2 = [''user-1'', ''user-4'']"
    unfolding top_k_def c o by (rule take_2_of_4)
qed

subsection \<open>The Pearson correlations of \<open>user-3\<close>\<close>

lemma sqrt_208_9: "3 * sqrt (208 / 9) = sqrt 208"
proof -
  have "sqrt (208 / 9) = sqrt 208 / sqrt 9" by (rule real_sqrt_divide)
  moreover have "sqrt 9 = 3" by (rule real_sqrt_unique) simp_all
  ultimately show ?thesis by simp
qed

lemma sqrt_16_3: "2 / sqrt (16 / 3) = sqrt 3 / 2"
proof -
  have "sqrt (16 / 3) = sqrt 16 / sqrt 3" by (rule real_sqrt_divide)
  moreover have "sqrt 16 = 4" by (rule real_sqrt_unique) simp_all
  ultimately show ?thesis by simp
qed

lemma sqrt_361_4: "2 * sqrt (361 / 4) = 19"
proof -
  have "sqrt (361 / 4) = 19 / 2" by (rule real_sqrt_unique) (simp_all add: power2_eq_square)
  then show ?thesis by simp
qed

lemma correlation_frame:
  "transpose (vals (T_frame data_frame)) = vals data_frame"
  "columns (T_frame data_frame) = [''user-1'', ''user-2'', ''user-3'', ''user-4'', ''user-5'']"
  by (simp_all add: T_frame_def data_frame_vals data_frame_labels)

lemma correlation_entries:
  "loc_at correlation ''user-3'' ''user-1'' = Inr (Fin (4 / sqrt 20))"
  "loc_at correlation ''user-3'' ''user-2'' = Inr (Fin (14 / sqrt 208))"
  "loc_at correlation ''user-3'' ''user-4'' = Inr (Fin (- 1))"
  "loc_at correlation ''user-3'' ''user-5'' = Inr (Fin (- (sqrt 3 / 2)))"
proof -
  have p:
    "pearson [NaN, Fin 3, Fin 3, Fin 1, Fin 1, NaN] [Fin 7, Fin 6, Fin 7, Fin 4, Fin 5, Fin 4] =
       Fin (4 / sqrt 20)"
    "pearson [NaN, Fin 3, Fin 3, Fin 1, Fin 1, NaN] [Fin 6, Fin 7, NaN, Fin 4, Fin 3, Fin 4] =
       Fin (14 / sqrt 208)"
    "pearson [NaN, Fin 3, Fin 3, Fin 1, Fin 1, NaN] [Fin 1, Fin 2, Fin 2, Fin 3, Fin 3, Fin 4] =
       Fin (- 1)"
    "pearson [NaN, Fin 3, Fin 3, Fin 1, Fin 1, NaN] [Fin 1, NaN, Fin 1, Fin 2, Fin 3, Fin 3] =
       Fin (- (sqrt 3 / 2))"
    by (simp_all add: pearson_def paired_def List.map_filter_simps Let_def sqrt_208_9 sqrt_16_3)
  show "loc_at correlation ''user-3'' ''user-1'' = Inr (Fin (4 / sqrt 20))"
    "loc_at correlation ''user-3'' ''user-2'' = Inr (Fin (14 / sqrt 208))"
    "loc_at correlation ''user-3'' ''user-4'' = Inr (Fin (- 1))"
    "loc_at correlation ''user-3'' ''user-5'' = Inr (Fin (- (sqrt 3 / 2)))"
    by (simp_all add: correlation_def corr_def Let_def correlation_frame data_frame_vals
        loc_at_def loc_def getitem_def p)
qed

lemma correlation_self: "loc_at correlation ''user-1'' ''user-1'' = Inr (Fin 1)"
proof -
  have "pearson [Fin 7, Fin 6, Fin 7, Fin 4, Fin 5, Fin 4] [Fin 7, Fin 6, Fin 7, Fin 4, Fin 5, Fin 4] =
          Fin 1"
    by (simp add: pearson_def paired_def List.map_filter_simps Let_def sqrt_361_4)
  then show ?thesis
    by (simp add: correlation_def corr_def Let_def correlation_frame data_frame_vals
        loc_at_def loc_def getitem_def)
qed

lemma correlation_order:
  "- 1 < - (sqrt 3 / 2)" "- (sqrt 3 / 2) < 4 / sqrt 20" "4 / sqrt 20 < 14 / sqrt 208"
proof -
  have "sqrt 3 < 2" by (rule real_less_lsqrt) simp_all
  then show "- 1 < - (sqrt 3 / 2)" by simp
  have "- (sqrt 3 / 2) < 0" by simp
  also have "(0::real) < 4 / sqrt 20" by simp
  finally show "- (sqrt 3 / 2) < 4 / sqrt 20" .
  show "4 / sqrt 20 < 14 / sqrt 208" by (rule div_sqrt_less) simp_all
qed

lemma correlation_top_2:
  "top_k correlation data_frame ''user-3'' ''item-1'' 2 = [''user-2'', ''user-1'']"
  unfolding top_k_def candidates_user_3(1) [OF correlation_entries]
    sort_descending_badc [OF correlation_order]
  by (rule take_2_of_4)

section \<open>Exact arithmetic: centred means and weighted averages\<close>

text \<open>
  In exact arithmetic the mean of a centred row is zero and a weighted average with
  positive weights lies between the least and the greatest of the averaged ratings.
\<close>

lemma exact_centred_mean_zero:
  assumes "distinct (index df)" and "length (index df) = length (vals df)"
    and "map_of (zip (index df) (vals df)) u = Some row"
    and "\<forall>v\<in>set row. v = NaN \<or> is_finite v"
    and "\<exists>v\<in>set row. is_finite v"
  shows "getitem (mean_axis1 (mean_center df)) u = Inr (Fin 0) \<and>
         (\<forall>i. (loc_at (mean_center df) u i = Inr NaN) = (loc_at df u i = Inr NaN))"
proof -
  from row_mean_center_row [OF assms(4,5)] obtain m
    where m: "row_mean row = Fin m" and zero: "row_mean (center_row row) = Fin 0" by blast
  have "map_of (mean_axis1 (mean_center df)) u = Some (row_mean (center_row row))"
    by (simp add: mean_axis1_def mean_center_frame [OF assms(1,2)] map_of_zip_map_right assms(3))
  with zero have mean0: "getitem (mean_axis1 (mean_center df)) u = Inr (Fin 0)"
    by (simp add: getitem_def)
  have means_u: "getitem (mean_axis1 df) u = Inr (Fin m)"
    by (simp add: getitem_def mean_axis1_def map_of_zip_map_right assms(3) m)
  have "(loc_at (mean_center df) u i = Inr NaN) = (loc_at df u i = Inr NaN)" for i
    by (cases "loc_at df u i")
      (simp_all add: loc_at_mean_center [OF assms(1,2)] means_u sub_r_def lift2_def fsub_Fin_NaN)
  with mean0 show ?thesis by simp
qed

lemma exact_convex_combination:
  fixes s r :: "string \<Rightarrow> real"
  assumes "peers \<noteq> []"
    and "\<forall>p\<in>set peers. 0 < s p \<and> loc_at sim t p = Inr (Fin (s p)) \<and>
                         loc_at df p i = Inr (Fin (r p))"
  shows "\<exists>v. predict df sim means t i peers False = Inr (Fin v) \<and>
             Min (r ` set peers) \<le> v \<and> v \<le> Max (r ` set peers) \<and>
             ((\<forall>p\<in>set peers. r p = c) \<longrightarrow> v = c)"
proof -
  let ?S = "sum_list (map s peers)"
  let ?W = "sum_list (map (\<lambda>p. s p * r p) peers)"
  have total: "sum_r (map (\<lambda>p. loc_at sim t p) peers) = Inr (Fin ?S)"
    using assms(2) by (intro sum_r_finite) simp
  have weighted:
    "sum_r (map (\<lambda>p. mul_r (loc_at sim t p) (rating_value df means False p i)) peers) =
       Inr (Fin ?W)"
    using assms(2) by (intro sum_r_finite) (simp add: rating_value_def mul_r_def lift2_def)
  have pos: "0 < ?S"
    using assms by (intro sum_list_pos) simp_all
  have pval: "predict df sim means t i peers False = Inr (Fin (?W / ?S))"
    using pos by (simp add: predict_def total weighted div_r_def lift2_def)
  have "\<forall>p\<in>set peers. 0 < s p \<and> Min (r ` set peers) \<le> r p \<and> r p \<le> Max (r ` set peers)"
    using assms(2) by simp
  from weighted_bounds [OF this]
  have lo: "Min (r ` set peers) \<le> ?W / ?S" and hi: "?W / ?S \<le> Max (r ` set peers)"
    using pos by (simp_all add: pos_le_divide_eq pos_divide_le_eq)
  have same: "?W / ?S = c" if "\<forall>p\<in>set peers. r p = c"
  proof -
    from that have "\<forall>p\<in>set peers. 0 < s p \<and> c \<le> r p \<and> r p \<le> c"
      using assms(2) by simp
    from weighted_bounds [OF this] have "c * ?S = ?W" by simp
    with pos show ?thesis by (simp add: field_simps)
  qed
  from pval lo hi same show ?thesis by blast
qed

section \<open>Rounding to double precision\<close>

lemma rne_near: "\<bar>of_int (rne m) - m\<bar> \<le> 1 / 2"
  unfolding rne_def Let_def by (auto simp: abs_le_iff)

lemma rne_abs_le:
  assumes "\<bar>m\<bar> \<le> of_int k"
  shows "\<bar>rne m\<bar> \<le> k"
proof -
  have "of_int (rne m) \<le> m + 1 / 2" "m - 1 / 2 \<le> of_int (rne m)"
    using rne_near [of m] by linarith+
  with assms have "real_of_int (rne m) < of_int k + 1" "- real_of_int k - 1 < of_int (rne m)"
    by (simp_all add: abs_le_iff)
  then have "rne m < k + 1" "- k - 1 < rne m"
    by linarith+
  then show ?thesis by simp
qed

lemma exponent64_binade:
  assumes "2 powi e \<le> \<bar>x\<bar>" and "\<bar>x\<bar> < 2 powi (e + 1)" and "- 1022 \<le> e"
  shows "exponent64 x = e"
proof -
  have pos: "0 < \<bar>x\<bar>"
    using assms(1) by (smt (verit) zero_less_power_int)
  have "(2::real) powr of_int e = 2 powi e" "(2::real) powr (of_int e + 1) = 2 powi (e + 1)"
    using powr_real_of_int' [of 2 e] powr_real_of_int' [of 2 "e + 1"] by simp_all
  with assms have "\<lfloor>log 2 \<bar>x\<bar>\<rfloor> = e"
    using floor_log_eq_powr_iff [of "\<bar>x\<bar>" 2 e] pos by simp
  with assms(3) show ?thesis by (simp add: exponent64_def)
qed

lemma round64_binade:
  assumes "2 powi e \<le> \<bar>x\<bar>" and "\<bar>x\<bar> < 2 powi (e + 1)" and "- 1022 \<le> e" and "e \<le> 1022"
  shows "round64 x = Fin (of_int (rne (x / 2 powi (e - 52))) * 2 powi (e - 52))"
proof -
  let ?ulp = "2 powi (e - 52) :: real"
  have ulp: "0 < ?ulp" by simp
  have x: "x \<noteq> 0"
    using assms(1) by (smt (verit) zero_less_power_int)
  have e: "exponent64 x = e" using assms(1-3) by (rule exponent64_binade)
  have "\<bar>x / ?ulp\<bar> = \<bar>x\<bar> / ?ulp" by simp
  also have "\<dots> \<le> 2 powi (e + 1) / ?ulp"
    using assms(2) ulp by (intro divide_right_mono) simp_all
  also have "\<dots> = 2 powi 53"
    by (simp add: power_int_diff [symmetric])
  finally have "\<bar>x / ?ulp\<bar> \<le> of_int (2 ^ 53)" by simp
  then have "\<bar>rne (x / ?ulp)\<bar> \<le> 2 ^ 53" by (rule rne_abs_le)
  then have "\<bar>real_of_int (rne (x / ?ulp))\<bar> \<le> 2 ^ 53"
    by (metis of_int_abs of_int_le_iff of_int_numeral of_int_power)
  then have "\<bar>of_int (rne (x / ?ulp)) * ?ulp\<bar> \<le> 2 ^ 53 * ?ulp"
    using ulp by (simp add: abs_mult)
  also have "2 ^ 53 * ?ulp = 2 powi (e + 1)"
    by (simp add: power_int_diff power_int_add field_simps)
  also have "\<dots> \<le> 2 powi 1023"
    using assms(4) by (intro power_int_increasing) simp_all
  also have "\<dots> < (2::real) ^ 1024" by simp
  finally have "\<not> 2 ^ 1024 \<le> \<bar>of_int (rne (x / ?ulp)) * ?ulp\<bar>" by simp
  then show ?thesis
    using x e by (simp add: round64_def Let_def)
qed

lemmas round64_binades =
  round64_binade [where e = "- 53"] round64_binade [where e = "- 50"]
  round64_binade [where e = "- 4"]
  round64_binade [where e = "- 3"] round64_binade [where e = "- 2"]
  round64_binade [where e = "- 1"] round64_binade [where e = 0]
  round64_binade [where e = 1] round64_binade [where e = 2]
  round64_binade [where e = 3] round64_binade [where e = 4]
  round64_binade [where e = 5]

lemma round64_zero: "round64 0 = Fin 0"
  by (simp add: round64_def)


lemma lift2_Inr: "lift2 f (Inr x) (Inr y) = Inr (f x y)"
  by (simp add: lift2_def)

text \<open>Every positive number lies in one binade.\<close>

lemma binade_between:
  fixes x :: real
  assumes "2 powi lo \<le> x" and "x \<le> 2 powi hi"
  shows "\<exists>e. 2 powi e \<le> x \<and> x < 2 powi (e + 1) \<and> lo \<le> e \<and> e \<le> hi"
proof -
  have pos: "0 < x"
    using assms(1) by (smt (verit) zero_less_power_int)
  define e where "e = \<lfloor>log 2 x\<rfloor>"
  have p: "(2::real) powr of_int e = 2 powi e" "(2::real) powr (of_int e + 1) = 2 powi (e + 1)"
    using powr_real_of_int' [of 2 e] powr_real_of_int' [of 2 "e + 1"] by simp_all
  have b: "2 powi e \<le> x" "x < 2 powi (e + 1)"
    using floor_log_eq_powr_iff [of x 2 e] pos p by (simp_all add: e_def)
  have "lo \<le> e"
  proof (rule ccontr)
    assume "\<not> lo \<le> e"
    then have "e + 1 \<le> lo" by simp
    then have "(2::real) powi (e + 1) \<le> 2 powi lo"
      by (intro power_int_increasing) simp_all
    with b(2) assms(1) show False by linarith
  qed
  moreover have "e \<le> hi"
  proof (rule ccontr)
    assume "\<not> e \<le> hi"
    then have "hi + 1 \<le> e" by simp
    then have "(2::real) powi (hi + 1) \<le> 2 powi e"
      by (intro power_int_increasing) simp_all
    moreover have "(2::real) powi hi < 2 powi (hi + 1)"
      by (intro power_int_strict_increasing) simp_all
    ultimately show False using b(1) assms(2) by linarith
  qed
  ultimately show ?thesis using b by blast
qed

text \<open>A rounded value in the normal range is within the relative distance \<open>2^-53\<close>.\<close>

lemma abs_rel:
  fixes x y k :: real
  assumes "\<bar>y - x\<bar> \<le> x * k"
  shows "x * (1 - k) \<le> y \<and> y \<le> x * (1 + k)"
  using assms by (simp add: abs_le_iff algebra_simps)

lemma round64_rel:
  fixes x :: real
  assumes "2 powi (- 1022) \<le> x" and "x \<le> 2 powi 1022"
  shows "\<exists>y. round64 x = Fin y \<and> x * (1 - 1 / 2 ^ 53) \<le> y \<and> y \<le> x * (1 + 1 / 2 ^ 53)"
proof -
  from binade_between [OF assms] obtain e
    where e: "2 powi e \<le> x" "x < 2 powi (e + 1)" "- 1022 \<le> e" "e \<le> 1022" by blast
  have pos: "0 < x"
    using assms(1) by (smt (verit) zero_less_power_int)
  let ?ulp = "2 powi (e - 52) :: real"
  let ?y = "of_int (rne (x / ?ulp)) * ?ulp"
  have ulp: "0 < ?ulp" by simp
  have r: "round64 x = Fin ?y"
    using e pos by (intro round64_binade) simp_all
  have "?y - x = (of_int (rne (x / ?ulp)) - x / ?ulp) * ?ulp"
    using ulp by (simp add: left_diff_distrib)
  then have "\<bar>?y - x\<bar> = \<bar>of_int (rne (x / ?ulp)) - x / ?ulp\<bar> * ?ulp"
    using ulp by (simp only: abs_mult abs_of_pos)
  also have "\<dots> \<le> 1 / 2 * ?ulp"
    using rne_near [of "x / ?ulp"] ulp by (intro mult_right_mono) simp_all
  also have "1 / 2 * ?ulp = 2 powi e / 2 ^ 53"
    by (simp add: power_int_diff)
  also have "\<dots> \<le> x / 2 ^ 53"
    using e(1) by (intro divide_right_mono) simp_all
  finally have "\<bar>?y - x\<bar> \<le> x * (1 / 2 ^ 53)" by (simp only: times_divide_eq_right mult_1_right)
  then have "x * (1 - 1 / 2 ^ 53) \<le> ?y \<and> ?y \<le> x * (1 + 1 / 2 ^ 53)"
    by (rule abs_rel)
  with r show ?thesis by blast
qed

lemma round64_moderate:
  fixes x :: real
  assumes "x = 0 \<or> (1 / 2 ^ 400 \<le> x \<and> x \<le> 2 ^ 400)"
  shows "\<exists>y. round64 x = Fin y \<and> x * (1 - 1 / 2 ^ 53) \<le> y \<and> y \<le> x * (1 + 1 / 2 ^ 53)"
  using assms
proof
  assume "x = 0"
  then show ?thesis by (simp add: round64_zero)
next
  assume x: "1 / 2 ^ 400 \<le> x \<and> x \<le> 2 ^ 400"
  have "(2::real) powi (- 1022) \<le> 2 powi (- 400)" "(2::real) powi 400 \<le> 2 powi 1022"
    by (intro power_int_increasing; simp)+
  moreover have "(2::real) powi (- 400) = 1 / 2 ^ 400" "(2::real) powi 400 = 2 ^ 400"
    by (simp_all add: power_int_minus field_simps)
  ultimately have "2 powi (- 1022) \<le> x" "x \<le> 2 powi 1022"
    using x by linarith+
  then show ?thesis by (rule round64_rel)
qed

lemma round64_crude:
  fixes x :: real
  assumes "1 / 2 ^ 400 \<le> x" and "x \<le> 2 ^ 400"
  shows "\<exists>y. round64 x = Fin y \<and> x * (1 - 1 / 2 ^ 53) \<le> y \<and> y \<le> x * (1 + 1 / 2 ^ 53) \<and>
             x / 2 \<le> y \<and> y \<le> 2 * x"
proof -
  from assms have "x = 0 \<or> (1 / 2 ^ 400 \<le> x \<and> x \<le> 2 ^ 400)" by simp
  from round64_moderate [OF this] obtain y where y: "round64 x = Fin y"
    "x * (1 - 1 / 2 ^ 53) \<le> y" "y \<le> x * (1 + 1 / 2 ^ 53)" by blast
  have x: "0 \<le> x" using assms(1) by (smt (verit) divide_nonneg_nonneg zero_le_power)
  have "x / 2 \<le> x * (1 - 1 / 2 ^ 53)" "x * (1 + 1 / 2 ^ 53) \<le> 2 * x"
    using x by (simp_all add: field_simps)
  with y show ?thesis by (intro exI [of _ y]) simp
qed

text \<open>Scaling by a power of two commutes with rounding, away from overflow and underflow.\<close>

lemma round64_scale_binade:
  fixes x :: real
  assumes "2 powi e \<le> x" and "x < 2 powi (e + 1)" and "- 1022 \<le> e" and "e \<le> 1022"
    and "- 1022 \<le> e + k" and "e + k \<le> 1022"
  shows "\<exists>y. round64 x = Fin y \<and> round64 (2 powi k * x) = Fin (2 powi k * y)"
proof -
  have pos: "0 < x"
    using assms(1) by (smt (verit) zero_less_power_int)
  have k: "0 < (2::real) powi k" by simp
  let ?m = "real_of_int (rne (x / 2 powi (e - 52)))"
  have r: "round64 x = Fin (?m * 2 powi (e - 52))"
    using assms(1-4) pos by (intro round64_binade) simp_all
  have "2 powi k * 2 powi e \<le> 2 powi k * x" "2 powi k * x < 2 powi k * 2 powi (e + 1)"
    using assms(1,2) k by simp_all
  moreover have "(2::real) powi k * 2 powi e = 2 powi (e + k)"
    "(2::real) powi k * 2 powi (e + 1) = 2 powi (e + k + 1)"
    by (simp_all add: power_int_add)
  ultimately have b: "2 powi (e + k) \<le> \<bar>2 powi k * x\<bar>" "\<bar>2 powi k * x\<bar> < 2 powi (e + k + 1)"
    using pos k by (simp_all add: abs_mult)
  have u: "(2::real) powi (e + k - 52) = 2 powi k * 2 powi (e - 52)"
    by (simp add: power_int_add power_int_diff)
  have q: "2 powi k * x / 2 powi (e + k - 52) = x / 2 powi (e - 52)"
    unfolding u using k by simp
  have "round64 (2 powi k * x) =
      Fin (of_int (rne (2 powi k * x / 2 powi (e + k - 52))) * 2 powi (e + k - 52))"
    using b assms(5,6) by (rule round64_binade)
  also have "\<dots> = Fin (2 powi k * (?m * 2 powi (e - 52)))"
    unfolding q u by simp
  finally show ?thesis using r by blast
qed

lemma round64_scale:
  fixes x :: real
  assumes "1 / 2 ^ 200 \<le> x" and "x \<le> 2 ^ 200" and "- 200 \<le> k" and "k \<le> 200"
  shows "\<exists>y. round64 x = Fin y \<and> round64 (2 powi k * x) = Fin (2 powi k * y)"
proof -
  have "(2::real) powi (- 200) = 1 / 2 ^ 200" "(2::real) powi 200 = 2 ^ 200"
    by (simp_all add: power_int_minus field_simps)
  with assms(1,2) have "2 powi (- 200) \<le> x" "x \<le> 2 powi 200" by simp_all
  from binade_between [OF this] obtain e
    where e: "2 powi e \<le> x" "x < 2 powi (e + 1)" "- 200 \<le> e" "e \<le> 200" by blast
  show ?thesis
    using e assms(3,4) by (intro round64_scale_binade [of e]) simp_all
qed

lemma round64_one: "round64 1 = Fin 1"
  using round64_binade [of 0 1] by (simp add: rne_def)

lemma round64_power_of_two:
  assumes "- 200 \<le> k" and "k \<le> 200"
  shows "round64 (2 powi k) = Fin (2 powi k)"
proof -
  have "(1::real) / 2 ^ 200 \<le> 1" "(1::real) \<le> 2 ^ 200" by simp_all
  from round64_scale [OF this assms] show ?thesis by (simp add: round64_one)
qed



section \<open>The prediction in double precision\<close>

text \<open>
  The rounding errors of the five operations of the expression, for non-negative
  ratings and positive weights.
\<close>

lemma weighted_rounding_bounds:
  fixes a b r1 r2 p1 p2 s d v u lo hi :: real
  assumes u: "0 \<le> u" "u < 1"
    and ab: "0 < a" "0 < b"
    and r: "0 \<le> lo" "lo \<le> r1" "lo \<le> r2" "r1 \<le> hi" "r2 \<le> hi"
    and p1: "a * r1 * (1 - u) \<le> p1" "p1 \<le> a * r1 * (1 + u)"
    and p2: "b * r2 * (1 - u) \<le> p2" "p2 \<le> b * r2 * (1 + u)"
    and s: "(p1 + p2) * (1 - u) \<le> s" "s \<le> (p1 + p2) * (1 + u)"
    and d: "(a + b) * (1 - u) \<le> d" "d \<le> (a + b) * (1 + u)"
    and v: "s / d * (1 - u) \<le> v" "v \<le> s / d * (1 + u)"
  shows "lo * ((1 - u) ^ 3 / (1 + u)) \<le> v \<and> v \<le> hi * ((1 + u) ^ 3 / (1 - u))"
proof -
  define al where "al = 1 - u"
  define be where "be = 1 + u"
  define W where "W = a * r1 + b * r2"
  define D where "D = a + b"
  have al: "0 < al" and be: "0 < be" using u by (simp_all add: al_def be_def)
  have D: "0 < D" using ab by (simp add: D_def)
  have r12: "0 \<le> r1" "0 \<le> r2" using r by linarith+
  have "lo * a \<le> r1 * a" "lo * b \<le> r2 * b" "r1 * a \<le> hi * a" "r2 * b \<le> hi * b"
    using ab r by (simp_all add: mult_right_mono)
  then have W: "lo * D \<le> W" "W \<le> hi * D"
    by (simp_all add: W_def D_def algebra_simps)
  have W0: "0 \<le> W" using ab r12 by (simp add: W_def)
  have hi0: "0 \<le> hi" using r by linarith
  have pl: "W * al \<le> p1 + p2" and pu: "p1 + p2 \<le> W * be"
    using p1 p2 by (simp_all add: W_def al_def be_def algebra_simps)
  have p0: "0 \<le> p1 + p2" using pl W0 al by (smt (verit) mult_nonneg_nonneg)
  have "W * al * al \<le> (p1 + p2) * al" using pl al by (simp add: mult_right_mono)
  with s(1) have sl: "W * al * al \<le> s" by (simp add: al_def)
  have "(p1 + p2) * be \<le> W * be * be" using pu be by (simp add: mult_right_mono)
  with s(2) have su: "s \<le> W * be * be" by (simp add: be_def)
  have s0: "0 \<le> s" using sl W0 al by (smt (verit) mult_nonneg_nonneg)
  have dl: "D * al \<le> d" and du: "d \<le> D * be"
    using d by (simp_all add: D_def al_def be_def)
  have d0: "0 < d" using dl D al by (smt (verit) mult_pos_pos)
  have "s / d \<le> W * be * be / (D * al)"
    using s0 su dl D al by (intro frac_le) simp_all
  also have "\<dots> \<le> hi * D * be * be / (D * al)"
    using W(2) be D al by (intro divide_right_mono mult_right_mono) simp_all
  also have "\<dots> = hi * (be * be / al)"
    using D by simp
  finally have qu: "s / d \<le> hi * (be * be / al)" .
  have q0: "0 \<le> s / d" using s0 d0 by simp
  have "v \<le> s / d * be" using v(2) by (simp add: be_def)
  also have "\<dots> \<le> hi * (be * be / al) * be"
    using qu be by (intro mult_right_mono) simp_all
  also have "\<dots> = hi * (be ^ 3 / al)"
    by (simp add: power3_eq_cube)
  finally have upper: "v \<le> hi * (be ^ 3 / al)" .
  have "lo * (al * al / be) = lo * D * al * al / (D * be)"
    using D by simp
  also have "\<dots> \<le> W * al * al / (D * be)"
    using W(1) be D al by (intro divide_right_mono mult_right_mono) simp_all
  also have "\<dots> \<le> s / d"
    using sl du d0 s0 by (intro frac_le) simp_all
  finally have ql: "lo * (al * al / be) \<le> s / d" .
  have "lo * (al ^ 3 / be) = lo * (al * al / be) * al"
    by (simp add: power3_eq_cube)
  also have "\<dots> \<le> s / d * al"
    using ql al by (intro mult_right_mono) simp_all
  also have "\<dots> \<le> v" using v(1) by (simp add: al_def)
  finally have lower: "lo * (al ^ 3 / be) \<le> v" .
  from lower upper show ?thesis by (simp add: al_def be_def)
qed

lemma rounding_factors:
  "(1::real) - 1 / 2 ^ 50 \<le> (1 - 1 / 2 ^ 53) ^ 3 / (1 + 1 / 2 ^ 53)"
  "(1 + 1 / 2 ^ 53) ^ 3 / (1 - 1 / 2 ^ 53) \<le> (1::real) + 1 / 2 ^ 50"
  by (simp_all add: field_simps)

lemma prediction64_within:
  fixes a b r1 r2 :: real
  assumes sim: "loc_at sim t p1 = Inr (Fin a)" "loc_at sim t p2 = Inr (Fin b)"
    and rat: "loc_at df p1 i = Inr (Fin r1)" "loc_at df p2 i = Inr (Fin r2)"
    and a: "1 / 2 ^ 100 \<le> a" "a \<le> 2 ^ 100"
    and b: "1 / 2 ^ 100 \<le> b" "b \<le> 2 ^ 100"
    and r1: "r1 = 0 \<or> (1 / 2 ^ 100 \<le> r1 \<and> r1 \<le> 2 ^ 100)"
    and r2: "r2 = 0 \<or> (1 / 2 ^ 100 \<le> r2 \<and> r2 \<le> 2 ^ 100)"
  shows "\<exists>v. prediction64 sim df t p1 p2 i = Inr (Fin v) \<and>
             min r1 r2 * (1 - 1 / 2 ^ 50) \<le> v \<and> v \<le> max r1 r2 * (1 + 1 / 2 ^ 50)"
proof -
  have apos: "0 < a" and bpos: "0 < b"
    using a(1) b(1) by (smt (verit) divide_pos_pos zero_less_power zero_less_one)+
  have r1n: "0 \<le> r1" and r2n: "0 \<le> r2"
    using r1 r2 by (smt (verit) divide_nonneg_nonneg zero_le_power)+
  have prod: "x * y = 0 \<or> (1 / 2 ^ 200 \<le> x * y \<and> x * y \<le> 2 ^ 200)"
    if "1 / 2 ^ 100 \<le> x" "x \<le> 2 ^ 100" "y = 0 \<or> (1 / 2 ^ 100 \<le> y \<and> y \<le> 2 ^ 100)"
    for x y :: real
    using that(3)
  proof
    assume "y = 0"
    then show ?thesis by simp
  next
    assume y: "1 / 2 ^ 100 \<le> y \<and> y \<le> 2 ^ 100"
    have "1 / 2 ^ 100 * (1 / 2 ^ 100) \<le> x * y"
      using that(1) y by (intro mult_mono) simp_all
    moreover have "x * y \<le> 2 ^ 100 * 2 ^ 100"
      using that(1,2) y by (intro mult_mono) (smt (verit) divide_nonneg_nonneg zero_le_power)+
    ultimately show ?thesis by simp
  qed
  have wide: "x = 0 \<or> (1 / 2 ^ 400 \<le> x \<and> x \<le> 2 ^ 400)"
    if "x = 0 \<or> (1 / 2 ^ 200 \<le> x \<and> x \<le> 2 ^ 200)" for x :: real
    using that by auto
  from round64_moderate [OF wide [OF prod [OF a r1]]] obtain P1 where P1: "round64 (a * r1) = Fin P1"
    "a * r1 * (1 - 1 / 2 ^ 53) \<le> P1" "P1 \<le> a * r1 * (1 + 1 / 2 ^ 53)" by blast
  from round64_moderate [OF wide [OF prod [OF b r2]]] obtain P2 where P2: "round64 (b * r2) = Fin P2"
    "b * r2 * (1 - 1 / 2 ^ 53) \<le> P2" "P2 \<le> b * r2 * (1 + 1 / 2 ^ 53)" by blast
  have ab: "1 / 2 ^ 400 \<le> a + b" "a + b \<le> 2 ^ 400"
    using a b by simp_all
  from round64_crude [OF ab] obtain D where D: "round64 (a + b) = Fin D"
    "(a + b) * (1 - 1 / 2 ^ 53) \<le> D" "D \<le> (a + b) * (1 + 1 / 2 ^ 53)"
    "(a + b) / 2 \<le> D" "D \<le> 2 * (a + b)" by blast
  have "0 < (a + b) / 2" using apos bpos by simp
  then have Dpos: "0 < D" using D(4) by (rule less_le_trans)
  have "1 / 2 ^ 100 \<le> (a + b) / 2" using a(1) b(1) by simp
  then have Dlo: "1 / 2 ^ 100 \<le> D" using D(4) by (rule order_trans)
  have Dhi: "D \<le> 2 ^ 102" using D(5) a(2) b(2) by simp
  have sum: "P1 + P2 = 0 \<or> (1 / 2 ^ 201 \<le> P1 + P2 \<and> P1 + P2 \<le> 2 ^ 202)"
  proof (cases "r1 = 0 \<and> r2 = 0")
    case True
    with P1 P2 show ?thesis by simp
  next
    case False
    have half: "a * r1 / 2 \<le> P1" "b * r2 / 2 \<le> P2" "P1 \<le> 2 * (a * r1)" "P2 \<le> 2 * (b * r2)"
      using P1 P2 apos bpos r1n r2n by (simp_all add: field_simps)
    have nn: "0 \<le> a * r1" "0 \<le> b * r2" using apos bpos r1n r2n by simp_all
    have up: "a * r1 \<le> 2 ^ 200" "b * r2 \<le> 2 ^ 200"
      using prod [OF a r1] prod [OF b r2] by auto
    have "1 / 2 ^ 200 \<le> a * r1 \<or> 1 / 2 ^ 200 \<le> b * r2"
    proof -
      from False have "r1 \<noteq> 0 \<or> r2 \<noteq> 0" by simp
      then show ?thesis
      proof
        assume "r1 \<noteq> 0"
        with r1 have "1 / 2 ^ 100 \<le> r1" by simp
        then have "1 / 2 ^ 100 * (1 / 2 ^ 100) \<le> a * r1"
          using a(1) by (intro mult_mono) simp_all
        then show ?thesis by simp
      next
        assume "r2 \<noteq> 0"
        with r2 have "1 / 2 ^ 100 \<le> r2" by simp
        then have "1 / 2 ^ 100 * (1 / 2 ^ 100) \<le> b * r2"
          using b(1) by (intro mult_mono) simp_all
        then show ?thesis by simp
      qed
    qed
    then have "1 / 2 ^ 201 \<le> P1 + P2" using half nn by auto
    moreover have "P1 + P2 \<le> 2 ^ 202" using half up by simp
    ultimately show ?thesis by simp
  qed
  have sum_wide: "P1 + P2 = 0 \<or> (1 / 2 ^ 400 \<le> P1 + P2 \<and> P1 + P2 \<le> 2 ^ 400)"
    using sum by auto
  from round64_moderate [OF sum_wide] obtain S where S: "round64 (P1 + P2) = Fin S"
    "(P1 + P2) * (1 - 1 / 2 ^ 53) \<le> S" "S \<le> (P1 + P2) * (1 + 1 / 2 ^ 53)" by blast
  have quot: "S / D = 0 \<or> (1 / 2 ^ 400 \<le> S / D \<and> S / D \<le> 2 ^ 400)"
    using sum
  proof
    assume "P1 + P2 = 0"
    with S show ?thesis by simp
  next
    assume s: "1 / 2 ^ 201 \<le> P1 + P2 \<and> P1 + P2 \<le> 2 ^ 202"
    then have nn: "0 \<le> P1 + P2" by (smt (verit) divide_nonneg_nonneg zero_le_power)
    have "(P1 + P2) / 2 \<le> (P1 + P2) * (1 - 1 / 2 ^ 53)"
      "(P1 + P2) * (1 + 1 / 2 ^ 53) \<le> 2 * (P1 + P2)"
      using nn by (simp_all add: field_simps)
    with S(2,3) have "(P1 + P2) / 2 \<le> S" "S \<le> 2 * (P1 + P2)" by linarith+
    with s have Slo: "1 / 2 ^ 202 \<le> S" and Shi: "S \<le> 2 ^ 203" by simp_all
    have "1 / 2 ^ 202 / 2 ^ 102 \<le> S / D"
      using Slo Dhi Dpos by (intro frac_le) (smt (verit) divide_nonneg_nonneg zero_le_power)+
    moreover have "(1 / 2 ^ 400 :: real) \<le> 1 / 2 ^ 202 / 2 ^ 102" by simp
    ultimately have lo: "1 / 2 ^ 400 \<le> S / D" by (rule order_trans [rotated])
    have "S / D \<le> 2 ^ 203 / (1 / 2 ^ 100)"
      using Shi Dlo by (intro frac_le) simp_all
    moreover have "2 ^ 203 / (1 / 2 ^ 100) \<le> (2 ^ 400 :: real)" by simp
    ultimately have "S / D \<le> 2 ^ 400" by (rule order_trans)
    with lo show ?thesis by blast
  qed
  from round64_moderate [OF quot] obtain V where V: "round64 (S / D) = Fin V"
    "S / D * (1 - 1 / 2 ^ 53) \<le> V" "V \<le> S / D * (1 + 1 / 2 ^ 53)" by blast
  have val: "prediction64 sim df t p1 p2 i = Inr (Fin V)"
    using Dpos by (simp add: prediction64_def sim rat lift2_Inr P1 P2 S D V)
  have "min r1 r2 * ((1 - 1 / 2 ^ 53) ^ 3 / (1 + 1 / 2 ^ 53)) \<le> V \<and>
        V \<le> max r1 r2 * ((1 + 1 / 2 ^ 53) ^ 3 / (1 - 1 / 2 ^ 53))"
    using apos bpos r1n r2n P1(2,3) P2(2,3) S(2,3) D(2,3) V(2,3)
    by (intro weighted_rounding_bounds [where a = a and b = b and ?r1.0 = r1 and ?r2.0 = r2
          and ?p1.0 = P1 and ?p2.0 = P2 and s = S and d = D]) simp_all
  moreover have "min r1 r2 * (1 - 1 / 2 ^ 50) \<le> min r1 r2 * ((1 - 1 / 2 ^ 53) ^ 3 / (1 + 1 / 2 ^ 53))"
    using r1n r2n rounding_factors(1) by (intro mult_left_mono) simp_all
  moreover have "max r1 r2 * ((1 + 1 / 2 ^ 53) ^ 3 / (1 - 1 / 2 ^ 53)) \<le> max r1 r2 * (1 + 1 / 2 ^ 50)"
    using r1n r2n rounding_factors(2) by (intro mult_left_mono) simp_all
  ultimately have "min r1 r2 * (1 - 1 / 2 ^ 50) \<le> V \<and> V \<le> max r1 r2 * (1 + 1 / 2 ^ 50)"
    by linarith
  with val show ?thesis by blast
qed

lemma prediction64_power_of_two:
  fixes a b :: real
  assumes sim: "loc_at sim t p1 = Inr (Fin a)" "loc_at sim t p2 = Inr (Fin b)"
    and rat: "loc_at df p1 i = Inr (Fin (2 powi k))" "loc_at df p2 i = Inr (Fin (2 powi k))"
    and a: "1 / 2 ^ 100 \<le> a" "a \<le> 2 ^ 100"
    and b: "1 / 2 ^ 100 \<le> b" "b \<le> 2 ^ 100"
    and k: "- 100 \<le> k" "k \<le> 100"
    and rep: "round64 a = Fin a" "round64 b = Fin b"
  shows "prediction64 sim df t p1 p2 i = Inr (Fin (2 powi k))"
proof -
  have k': "- 200 \<le> k" "k \<le> 200" using k by simp_all
  have "(1::real) / 2 ^ 200 \<le> 1 / 2 ^ 100" "(2::real) ^ 100 \<le> 2 ^ 200" by simp_all
  with a b have a': "1 / 2 ^ 200 \<le> a" "a \<le> 2 ^ 200" and b': "1 / 2 ^ 200 \<le> b" "b \<le> 2 ^ 200"
    by linarith+
  from round64_scale [OF a' k'] rep(1) have P1: "round64 (a * 2 powi k) = Fin (2 powi k * a)"
    by (simp add: mult.commute)
  from round64_scale [OF b' k'] rep(2) have P2: "round64 (b * 2 powi k) = Fin (2 powi k * b)"
    by (simp add: mult.commute)
  have "1 / 2 ^ 100 \<le> a + b" using a(1) b(1)
    by (smt (verit) divide_nonneg_nonneg zero_le_power)
  moreover have "(1::real) / 2 ^ 200 \<le> 1 / 2 ^ 100" by simp
  ultimately have lo: "1 / 2 ^ 200 \<le> a + b" by linarith
  have "a + b \<le> 2 ^ 100 + 2 ^ 100" using a(2) b(2) by linarith
  moreover have "(2::real) ^ 100 + 2 ^ 100 \<le> 2 ^ 200" by simp
  ultimately have hi: "a + b \<le> 2 ^ 200" by linarith
  from round64_scale [OF lo hi k'] obtain D
    where D: "round64 (a + b) = Fin D" "round64 (2 powi k * (a + b)) = Fin (2 powi k * D)"
    by blast
  have "(1::real) / 2 ^ 400 \<le> 1 / 2 ^ 200" "(2::real) ^ 200 \<le> 2 ^ 400" by simp_all
  with lo hi have "1 / 2 ^ 400 \<le> a + b" "a + b \<le> 2 ^ 400" by linarith+
  from round64_crude [OF this] D(1) have half: "(a + b) / 2 \<le> D" by auto
  have "0 < a" "0 < b"
    using a(1) b(1) by (smt (verit) divide_pos_pos zero_less_power zero_less_one)+
  then have "0 < (a + b) / 2" by simp
  then have Dpos: "0 < D" using half by (rule less_le_trans)
  have S: "round64 (2 powi k * a + 2 powi k * b) = Fin (2 powi k * D)"
    using D(2) by (simp add: distrib_left)
  show ?thesis
    using Dpos
    by (simp add: prediction64_def sim rat lift2_Inr P1 P2 S D(1) round64_power_of_two [OF k'])
qed

lemma tenth_entries:
  "loc_at tenth_similarity ''c'' ''a'' = Inr (Fin (3602879701896397 / 2 ^ 55))"
  "loc_at tenth_similarity ''c'' ''b'' = Inr (Fin (3602879701896397 / 2 ^ 55))"
  "loc_at tenth_ratings ''a'' ''item'' = Inr (Fin 3)"
  "loc_at tenth_ratings ''b'' ''item'' = Inr (Fin 3)"
  by (simp_all add: tenth_similarity_def tenth_ratings_def DataFrame_matrix_def
      DataFrame_def loc_at_def loc_def getitem_def)

lemma level_entries:
  "loc_at level_ratings ''a'' ''item'' = Inr (Fin 4)"
  "loc_at level_ratings ''b'' ''item'' = Inr (Fin 4)"
  by (simp_all add: level_ratings_def DataFrame_def loc_at_def loc_def getitem_def)

lemma round64_tenth: "round64 (3602879701896397 / 2 ^ 55) = Fin (3602879701896397 / 2 ^ 55)"
  using round64_binade [of "- 4" "3602879701896397 / 2 ^ 55"] by (simp add: rne_def)

section \<open>The centring loop in double precision\<close>















section \<open>The cosine notebook's predictions\<close>

lemma cosine_selected_item_1:
  assumes "cosine_similarity_raw = Inr sim"
  shows "\<exists>w. predict data_frame sim user_means ''user-3'' ''item-1''
               (top_k sim data_frame ''user-3'' ''item-1'' 2) False = Inr (Fin w) \<and>
             4.351 < w \<and> w < 4.352"
proof -
  define a :: real where "a = 48 / (sqrt 20 * sqrt 191)"
  define c :: real where "c = 18 / (sqrt 20 * sqrt 43)"
  note s = cosine_raw_entries(1,3) [OF assms, folded a_def c_def]
  have pos: "0 < a" "0 < c" by (simp_all add: a_def c_def)
  then have nz: "a + c \<noteq> 0" by linarith
  have p: "predict data_frame sim user_means ''user-3'' ''item-1''
             (top_k sim data_frame ''user-3'' ''item-1'' 2) False =
           Inr (Fin ((a * 7 + c * 1) / (a + c)))"
    unfolding cosine_top_2_items(1) [OF assms] predict_raw_pair
    by (rule prediction_finite [OF s data_frame_ratings(1,3) nz])
  have h: "3351 / 1000 * 18 / sqrt 43 < 2649 / 1000 * 48 / sqrt 191"
          "2648 / 1000 * 48 / sqrt 191 < 3352 / 1000 * 18 / sqrt 43"
    by (rule div_sqrt_less; simp)+
  have z: "0 < 1 / sqrt (20::real)" by simp
  have "(4.351 - 1) * c < (7 - 4.351) * a"
    using mult_strict_left_mono [OF h(1) z] by (simp add: a_def c_def field_simps)
  moreover have "(7 - 4.352) * a < (4.352 - 1) * c"
    using mult_strict_left_mono [OF h(2) z] by (simp add: a_def c_def field_simps)
  ultimately have "4.351 < (a * 7 + c * 1) / (a + c) \<and> (a * 7 + c * 1) / (a + c) < 4.352"
    using pos by (intro weighted_pair_bounds)
  with p show ?thesis by blast
qed

lemma cosine_selected_item_6:
  assumes "cosine_similarity_raw = Inr sim"
  shows "predict data_frame sim user_means ''user-3'' ''item-6''
           (top_k sim data_frame ''user-3'' ''item-6'' 2) False = Inr (Fin 4)"
proof -
  define a :: real where "a = 48 / (sqrt 20 * sqrt 191)"
  define c :: real where "c = 18 / (sqrt 20 * sqrt 43)"
  note s = cosine_raw_entries(1,3) [OF assms, folded a_def c_def]
  have pos: "0 < a" "0 < c" by (simp_all add: a_def c_def)
  then have nz: "a + c \<noteq> 0" by linarith
  have "predict data_frame sim user_means ''user-3'' ''item-6''
             (top_k sim data_frame ''user-3'' ''item-6'' 2) False =
           Inr (Fin ((a * 4 + c * 4) / (a + c)))"
    unfolding cosine_top_2_items(2) [OF assms] predict_raw_pair
    by (rule prediction_finite [OF s data_frame_ratings(5,7) nz])
  then show ?thesis
    using same_rating [OF nz, of 4] by (simp only:)
qed

lemma cosine_cells:
  "\<exists>v. prediction_user_3_item_1 = Inr (Fin v) \<and> \<bar>v - 6.582\<bar> < 0.00001 \<and>
       prediction_user_3_item_6 = Inr (Fin 4)"
proof -
  define a :: real where "a = 48 / (sqrt 20 * sqrt 191)"
  define b :: real where "b = 28 / (sqrt 20 * sqrt 126)"
  from cosine_raw_defined obtain sim where sim: "cosine_similarity_raw = Inr sim" ..
  note s = cosine_raw_entries(1,2) [OF sim, folded a_def b_def]
  have pos: "0 < a" "0 < b" by (simp_all add: a_def b_def)
  then have nz: "a + b \<noteq> 0" by linarith
  have p1: "prediction_user_3_item_1 = Inr (Fin ((a * 7 + b * 6) / (a + b)))"
    unfolding prediction_user_3_item_1_def sim
    using prediction_finite [OF s data_frame_ratings(1,2) nz] by simp
  have "prediction_user_3_item_6 = Inr (Fin ((a * 4 + b * 4) / (a + b)))"
    unfolding prediction_user_3_item_6_def sim
    using prediction_finite [OF s data_frame_ratings(5,6) nz] by simp
  then have p6: "prediction_user_3_item_6 = Inr (Fin 4)"
    using same_rating [OF nz, of 4] by (simp only:)
  have h: "58199 / 100000 * 28 / sqrt 126 < 41801 / 100000 * 48 / sqrt 191"
          "41799 / 100000 * 48 / sqrt 191 < 58201 / 100000 * 28 / sqrt 126"
    by (rule div_sqrt_less; simp)+
  have z: "0 < 1 / sqrt (20::real)" by simp
  have "(6.58199 - 6) * b < (7 - 6.58199) * a"
    using mult_strict_left_mono [OF h(1) z] by (simp add: a_def b_def field_simps)
  moreover have "(7 - 6.58201) * a < (6.58201 - 6) * b"
    using mult_strict_left_mono [OF h(2) z] by (simp add: a_def b_def field_simps)
  ultimately have "6.58199 < (a * 7 + b * 6) / (a + b) \<and> (a * 7 + b * 6) / (a + b) < 6.58201"
    using pos by (intro weighted_pair_bounds)
  then have "\<bar>(a * 7 + b * 6) / (a + b) - 6.582\<bar> < 0.00001"
    by (rule near) simp_all
  with p1 p6 show ?thesis by (intro exI conjI)
qed

section \<open>The weighted average\<close>

text \<open>
  Claim C1. The prediction is the similarity-weighted average of the chosen peers' rating
  values: the sum of similarity times rating value over the peers, divided by the sum of
  the similarities, where the rating value is the raw rating or, when centred, the
  rating minus the peer's mean; when centred, the target's mean is added to the quotient.
  The notebooks' two expressions, which always have two peers, compute exactly what
  \<open>predict\<close> states for the list of these two peers: the raw expression for any frames,
  and the mean-centred expression on the row means and the centred frame that the
  notebook derives from a frame with distinct row labels and one row of values per
  label.
\<close>

theorem predict_is_weighted_average:
  assumes "distinct (index df)" and "length (index df) = length (vals df)"
  shows "prediction sim df t p1 p2 i = predict df sim means t i [p1, p2] False \<and>
         mean_prediction (mean_axis1 df) sim (mean_center df) t p1 p2 i =
           predict df sim (mean_axis1 df) t i [p1, p2] True"
  by (simp add: predict_raw_pair predict_centered_pair mean_prediction_def prediction_def
      loc_at_mean_center [OF assms])

theorem predict_is_weighted_average_witness:
  "distinct (index data_frame) \<and> length (index data_frame) = length (vals data_frame) \<and>
   pearson_prediction_user_3_item_1 =
     predict data_frame correlation user_means ''user-3'' ''item-1'' [''user-1'', ''user-2''] False \<and>
   pearson_mean_prediction_user_3_item_1 =
     predict data_frame correlation user_means ''user-3'' ''item-1'' [''user-1'', ''user-2''] True"
  using predict_is_weighted_average [OF data_frame_wf, of correlation "''user-3''"
      "''user-1''" "''user-2''" "''item-1''" user_means]
  by (simp add: data_frame_wf pearson_prediction_user_3_item_1_def
      pearson_mean_prediction_user_3_item_1_def user_means_def means_data_frame_def)

section \<open>Neighbours and predictions of the cosine notebook\<close>

text \<open>
  Claim C2 says that under the raw cosine similarities the two nearest neighbours of
  \<open>user-3\<close> are \<open>user-1\<close> and \<open>user-2\<close>. The matrix the notebook computes ranks
  \<open>user-4\<close> (about 0.614) above \<open>user-2\<close> (about 0.558), and \<open>user-4\<close> has a rating for
  both queried items, so \<open>user-2\<close> is not among the two.
\<close>

theorem cosine_top_2_not_user_2:
  "\<exists>sim. cosine_similarity_raw = Inr sim \<and>
     ''user-2'' \<notin> set (top_k sim data_frame ''user-3'' ''item-1'' 2)"
proof -
  from cosine_raw_defined obtain sim where sim: "cosine_similarity_raw = Inr sim" ..
  have "''user-2'' \<notin> set (top_k sim data_frame ''user-3'' ''item-1'' 2)"
    unfolding cosine_top_2_items [OF sim] by simp
  with sim show ?thesis by (intro exI [of _ sim] conjI)
qed

text \<open>
  Claim C2, amended. Under the raw cosine similarities the two nearest neighbours of
  \<open>user-3\<close> among the users with a rating for the queried item are \<open>user-1\<close> and
  \<open>user-4\<close>, for \<open>item-1\<close> and for \<open>item-6\<close>.
\<close>

theorem cosine_top_2:
  "\<exists>sim. cosine_similarity_raw = Inr sim \<and>
     top_k sim data_frame ''user-3'' ''item-1'' 2 = [''user-1'', ''user-4''] \<and>
     top_k sim data_frame ''user-3'' ''item-6'' 2 = [''user-1'', ''user-4'']"
proof -
  from cosine_raw_defined obtain sim where sim: "cosine_similarity_raw = Inr sim" ..
  show ?thesis
    by (rule exI [of _ sim]) (simp only: sim cosine_top_2_items [OF sim])
qed

text \<open>
  Claim C3 says that with the raw cosine similarities the prediction for \<open>user-3\<close> and
  \<open>item-1\<close> with \<open>k = 2\<close> is about 6.582. The two neighbours that \<open>k = 2\<close> selects
  are \<open>user-1\<close> and \<open>user-4\<close>, and the weighted average of their ratings 7 and 1 is
  below 4.4.
\<close>

theorem cosine_k2_prediction_low:
  "\<exists>sim w. cosine_similarity_raw = Inr sim \<and>
     predict data_frame sim user_means ''user-3'' ''item-1''
       (top_k sim data_frame ''user-3'' ''item-1'' 2) False = Inr (Fin w) \<and>
     w < 4.4"
proof -
  from cosine_raw_defined obtain sim where sim: "cosine_similarity_raw = Inr sim" ..
  from cosine_selected_item_1 [OF sim] obtain w
    where w: "predict data_frame sim user_means ''user-3'' ''item-1''
               (top_k sim data_frame ''user-3'' ''item-1'' 2) False = Inr (Fin w)"
      "w < 4.352" by blast
  from w(2) have "w < 4.4" by simp
  with sim w(1) show ?thesis by (intro exI conjI)
qed

text \<open>
  Claim C3, amended. With the raw cosine similarities, the notebook's cell for \<open>user-3\<close>
  and \<open>item-1\<close> is the weighted average over \<open>user-1\<close> and \<open>user-2\<close>, the two peers it
  names itself, and its value is 6.582 to within a hundred-thousandth; the two
  neighbours selected with \<open>k = 2\<close> are \<open>user-1\<close> and \<open>user-4\<close>, and the prediction over
  them is 4.351 to within a thousandth. For \<open>item-6\<close> the prediction with \<open>k = 2\<close> and
  the notebook's cell are both exactly 4. The values are those of exact arithmetic;
  in double precision a common rating of 4 is also returned exactly
  (\<open>prediction64_power_of_two\<close>).
\<close>

theorem cosine_predictions_as_written:
  "\<exists>sim v w. cosine_similarity_raw = Inr sim \<and>
     prediction_user_3_item_1 =
       predict data_frame sim user_means ''user-3'' ''item-1'' [''user-1'', ''user-2''] False \<and>
     prediction_user_3_item_1 = Inr (Fin v) \<and> \<bar>v - 6.582\<bar> < 0.00001 \<and>
     top_k sim data_frame ''user-3'' ''item-1'' 2 = [''user-1'', ''user-4''] \<and>
     predict data_frame sim user_means ''user-3'' ''item-1'' [''user-1'', ''user-4''] False =
       Inr (Fin w) \<and>
     \<bar>w - 4.351\<bar> < 0.001 \<and>
     predict data_frame sim user_means ''user-3'' ''item-6''
       (top_k sim data_frame ''user-3'' ''item-6'' 2) False = Inr (Fin 4) \<and>
     prediction_user_3_item_6 = Inr (Fin 4)"
proof -
  from cosine_raw_defined obtain sim where sim: "cosine_similarity_raw = Inr sim" ..
  from cosine_cells obtain v where v: "prediction_user_3_item_1 = Inr (Fin v)"
    "\<bar>v - 6.582\<bar> < 0.00001" "prediction_user_3_item_6 = Inr (Fin 4)" by blast
  from cosine_selected_item_1 [OF sim] obtain w
    where w: "predict data_frame sim user_means ''user-3'' ''item-1''
               (top_k sim data_frame ''user-3'' ''item-1'' 2) False = Inr (Fin w)"
      "4.351 < w \<and> w < 4.352" by blast
  from w(2) have wn: "\<bar>w - 4.351\<bar> < 0.001" by (rule near) simp_all
  have c: "prediction_user_3_item_1 =
      predict data_frame sim user_means ''user-3'' ''item-1'' [''user-1'', ''user-2''] False"
    by (simp add: prediction_user_3_item_1_def sim predict_raw_pair)
  note t = cosine_top_2_items(1) [OF sim]
  from sim c v(1,2) t w(1) [unfolded t] wn cosine_selected_item_6 [OF sim] v(3)
  show ?thesis by (intro exI conjI)
qed

section \<open>The Pearson notebook\<close>

text \<open>
  Claim C4. With the pairwise-complete Pearson correlations, \<open>user-3\<close> correlates with
  \<open>user-1\<close> by 0.894 and with \<open>user-2\<close> by 0.971 (to three places), these two are its
  two nearest neighbours, the notebook's prediction for \<open>item-1\<close> is 6.4795 and its
  mean-centred prediction is 3.3439 (both to four places).
\<close>

theorem pearson_scenario:
  "\<exists>c1 c2 v w.
     loc_at correlation ''user-3'' ''user-1'' = Inr (Fin c1) \<and> \<bar>c1 - 0.894\<bar> < 0.0005 \<and>
     loc_at correlation ''user-3'' ''user-2'' = Inr (Fin c2) \<and> \<bar>c2 - 0.971\<bar> < 0.0005 \<and>
     top_k correlation data_frame ''user-3'' ''item-1'' 2 = [''user-2'', ''user-1''] \<and>
     pearson_prediction_user_3_item_1 = Inr (Fin v) \<and> \<bar>v - 6.4795\<bar> < 0.00005 \<and>
     pearson_mean_prediction_user_3_item_1 = Inr (Fin w) \<and> \<bar>w - 3.3439\<bar> < 0.00005"
proof -
  define a :: real where "a = 4 / sqrt 20"
  define b :: real where "b = 14 / sqrt 208"
  note s = correlation_entries(1,2) [folded a_def b_def]
  have pos: "0 < a" "0 < b" by (simp_all add: a_def b_def)
  then have nz: "a + b \<noteq> 0" by linarith
  have a_near: "\<bar>a - 0.894\<bar> < 0.0005"
  proof (rule near)
    show "0.8935 < a \<and> a < 0.8945"
      unfolding a_def by (intro conjI lower_div_sqrt upper_div_sqrt) simp_all
  qed simp_all
  have b_near: "\<bar>b - 0.971\<bar> < 0.0005"
  proof (rule near)
    show "0.9705 < b \<and> b < 0.9715"
      unfolding b_def by (intro conjI lower_div_sqrt upper_div_sqrt) simp_all
  qed simp_all
  have p: "pearson_prediction_user_3_item_1 = Inr (Fin ((a * 7 + b * 6) / (a + b)))"
    unfolding pearson_prediction_user_3_item_1_def
    by (rule prediction_finite [OF s data_frame_ratings(1,2) nz])
  have m: "pearson_mean_prediction_user_3_item_1 =
             Inr (Fin (2 + (a * (3 / 2) + b * (6 / 5)) / (a + b)))"
    unfolding pearson_mean_prediction_user_3_item_1_def mean_prediction_def
      prediction_finite [OF s means_data_frame_ratings nz] user_means_values
    by (simp add: add_r_def lift2_def)
  have h: "47953 / 100000 * 14 / sqrt 208 < 52047 / 100000 * 4 / sqrt 20"
          "52045 / 100000 * 4 / sqrt 20 < 47955 / 100000 * 14 / sqrt 208"
          "14386 / 100000 * 14 / sqrt 208 < 15614 / 100000 * 4 / sqrt 20"
          "15613 / 100000 * 4 / sqrt 20 < 14387 / 100000 * 14 / sqrt 208"
    by (rule div_sqrt_less; simp)+
  have "6.47953 < (a * 7 + b * 6) / (a + b) \<and> (a * 7 + b * 6) / (a + b) < 6.47955"
    using pos h(1,2) by (intro weighted_pair_bounds) (simp_all add: a_def b_def)
  then have v_near: "\<bar>(a * 7 + b * 6) / (a + b) - 6.4795\<bar> < 0.00005"
    by (rule near) simp_all
  have "1.34386 < (a * (3 / 2) + b * (6 / 5)) / (a + b) \<and>
        (a * (3 / 2) + b * (6 / 5)) / (a + b) < 1.34387"
    using pos h(3,4) by (intro weighted_pair_bounds) (simp_all add: a_def b_def)
  then have "3.34386 < 2 + (a * (3 / 2) + b * (6 / 5)) / (a + b) \<and>
        2 + (a * (3 / 2) + b * (6 / 5)) / (a + b) < 3.34387"
    by simp
  then have w_near: "\<bar>2 + (a * (3 / 2) + b * (6 / 5)) / (a + b) - 3.3439\<bar> < 0.00005"
    by (rule near) simp_all
  from s a_near b_near correlation_top_2 p v_near m w_near show ?thesis
    by (intro exI conjI)
qed

section \<open>Failures\<close>

lemma opposed_entries:
  "loc_at opposed_similarity ''c'' ''a'' = Inr (Fin (1 / 2))"
  "loc_at opposed_similarity ''c'' ''b'' = Inr (Fin (- (1 / 2)))"
  "loc_at opposed_similarity ''a'' ''a'' = Inr (Fin 1)"
  "loc_at opposed_ratings ''a'' ''item'' = Inr (Fin 4)"
  "loc_at opposed_ratings ''b'' ''item'' = Inr (Fin 2)"
  by (simp_all add: opposed_similarity_def opposed_ratings_def DataFrame_matrix_def
      DataFrame_def loc_at_def loc_def getitem_def)

text \<open>
  Claim C5 says that the prediction fails with a \<open>DegenerateNormalization\<close> condition
  instead of dividing when the similarities of the chosen peers sum to zero. The
  notebooks' expression has no such guard: with similarities \<open>1/2\<close> and \<open>-1/2\<close> and
  ratings 4 and 2 it divides 1 by 0 and returns the float infinity.
\<close>

theorem zero_sum_no_failure:
  "add_r (loc_at opposed_similarity ''c'' ''a'') (loc_at opposed_similarity ''c'' ''b'') =
     Inr (Fin 0) \<and>
   prediction opposed_similarity opposed_ratings ''c'' ''a'' ''b'' ''item'' = Inr PInf"
  by (simp add: prediction_def opposed_entries add_r_def mul_r_def div_r_def lift2_def)

text \<open>
  Claim C5, amended. When the similarities of the two chosen peers sum to exactly zero
  (all labels being present), the prediction expression performs the division and
  returns its result as a value, which is NaN or an infinity; it does not fail.
\<close>

theorem zero_sum_divides:
  assumes "loc_at sim t p1 = Inr a" and "loc_at sim t p2 = Inr b" and "fadd a b = Fin 0"
    and "loc_at df p1 i = Inr x" and "loc_at df p2 i = Inr y"
  shows "\<exists>v. prediction sim df t p1 p2 i = Inr v \<and> \<not> is_finite v"
  using assms
  by (simp add: prediction_def add_r_def mul_r_def div_r_def lift2_def fdiv_zero_not_finite)

theorem zero_sum_divides_witness:
  "loc_at opposed_similarity ''c'' ''a'' = Inr (Fin (1 / 2)) \<and>
   loc_at opposed_similarity ''c'' ''b'' = Inr (Fin (- (1 / 2))) \<and>
   fadd (Fin (1 / 2)) (Fin (- (1 / 2))) = Fin 0 \<and>
   (\<exists>v. prediction opposed_similarity opposed_ratings ''c'' ''a'' ''b'' ''item'' = Inr v \<and>
        \<not> is_finite v)"
proof -
  have z: "fadd (Fin (1 / 2)) (Fin (- (1 / 2))) = Fin 0" by simp
  from zero_sum_divides [OF opposed_entries(1,2) z opposed_entries(4,5)] z opposed_entries(1,2)
  show ?thesis by (intro conjI)
qed

text \<open>
  Claim C6. A target that is not a label of the similarity matrix (whose labels the
  notebooks take from the index of the rating matrix), or an item that is not a column
  of the rating matrix, makes the prediction fail: both expressions raise pandas'
  \<open>KeyError\<close>, the unknown-entity condition, and return no value.
\<close>

theorem unknown_entity_raises:
  assumes "t \<notin> set (index sim) \<or> i \<notin> set (columns df)"
  shows "prediction sim df t p1 p2 i = Inl KeyError \<and>
         mean_prediction means sim df t p1 p2 i = Inl KeyError"
proof -
  have p: "prediction sim df t p1 p2 i = Inl KeyError"
    using assms by (rule prediction_unknown)
  have "mean_prediction means sim df t p1 p2 i = Inl KeyError"
  proof (cases "getitem means t")
    case (Inl e)
    then show ?thesis
      by (simp add: mean_prediction_def add_r_def lift2_def getitem_error)
  next
    case (Inr m)
    then show ?thesis
      by (simp add: mean_prediction_def add_r_def lift2_def p)
  qed
  with p show ?thesis by simp
qed

theorem unknown_entity_raises_witness:
  "''user-9'' \<notin> set (index correlation) \<and>
   prediction correlation data_frame ''user-9'' ''user-1'' ''user-2'' ''item-1'' = Inl KeyError \<and>
   ''item-7'' \<notin> set (columns means_data_frame) \<and>
   mean_prediction user_means correlation means_data_frame
     ''user-3'' ''user-1'' ''user-2'' ''item-7'' = Inl KeyError"
proof -
  have u: "''user-9'' \<notin> set (index correlation)"
    by (simp add: correlation_def corr_def Let_def correlation_frame)
  have i: "''item-7'' \<notin> set (columns means_data_frame)"
    by (simp add: means_data_frame_def mean_center_frame [OF data_frame_wf] data_frame_labels)
  from u have "''user-9'' \<notin> set (index correlation) \<or> ''item-1'' \<notin> set (columns data_frame)" ..
  note a = unknown_entity_raises [OF this, of "''user-1''" "''user-2''" user_means]
  from i have "''user-3'' \<notin> set (index correlation) \<or> ''item-7'' \<notin> set (columns means_data_frame)" ..
  note b = unknown_entity_raises [OF this, of "''user-1''" "''user-2''" user_means]
  from u i a b show ?thesis by (intro conjI) simp_all
qed

section \<open>Algebraic properties of the predictor\<close>

text \<open>
  Claim C7. With a single neighbour that is the entity itself, self-similarity 1 and a
  known rating for the item, the uncentred prediction is exactly that rating.
\<close>

theorem self_neighbor:
  assumes "loc_at sim t t = Inr (Fin 1)" and "loc_at df t i = Inr (Fin r)"
  shows "predict df sim means t i [t] False = Inr (Fin r)"
  using assms
  by (simp add: predict_def rating_value_def add_r_zero_right mul_r_def div_r_def lift2_def)

theorem self_neighbor_witness:
  "loc_at correlation ''user-1'' ''user-1'' = Inr (Fin 1) \<and>
   loc_at data_frame ''user-1'' ''item-1'' = Inr (Fin 7) \<and>
   predict data_frame correlation user_means ''user-1'' ''item-1'' [''user-1''] False = Inr (Fin 7)"
  using self_neighbor [OF correlation_self data_frame_ratings(1), of user_means]
    correlation_self data_frame_ratings(1)
  by (intro conjI)

text \<open>
  Claim C8. With a single neighbour of non-zero similarity, whose centred rating is its
  rating \<open>r\<close> minus its mean, the centred prediction is the target's mean plus \<open>r\<close> minus
  the neighbour's mean.
\<close>

theorem centering_round_trip:
  assumes "loc_at sim t p = Inr (Fin s)" and "s \<noteq> 0"
    and "loc_at df p i = Inr (Fin r)"
    and "getitem means p = Inr (Fin mp)" and "getitem means t = Inr (Fin mt)"
  shows "predict df sim means t i [p] True = Inr (Fin (mt + r - mp))"
  using assms
  by (simp add: predict_def rating_value_def add_r_zero_right mul_r_def div_r_def
      sub_r_def add_r_def lift2_def fsub_def)

theorem centering_round_trip_witness:
  "loc_at correlation ''user-3'' ''user-1'' = Inr (Fin (4 / sqrt 20)) \<and> 4 / sqrt 20 \<noteq> (0::real) \<and>
   predict data_frame correlation user_means ''user-3'' ''item-1'' [''user-1''] True =
     Inr (Fin (2 + 7 - 11 / 2))"
proof -
  have nz: "4 / sqrt 20 \<noteq> (0::real)" by simp
  from centering_round_trip [OF correlation_entries(1) nz data_frame_ratings(1)
      user_means_values(1) user_means_values(3)] correlation_entries(1) nz
  show ?thesis by (intro conjI)
qed

section \<open>Centring and the bounds of the prediction in double precision\<close>




text \<open>
  Claim C10 says that with positive similarities the uncentred prediction lies between
  the least and the greatest of the peers' ratings, and is exactly \<open>r\<close> when all of them
  rate \<open>r\<close>. In exact arithmetic it does (\<open>exact_convex_combination\<close>). In double
  precision, for two peers who both rate 3 and whose similarities are both 0.1, the
  notebook's expression gives \<open>3 + 2^-51\<close>, printed as 3.0000000000000004: above the
  greatest rating, and not \<open>r\<close>.
\<close>

theorem equal_ratings_exceeded:
  "loc_at tenth_similarity ''c'' ''a'' = Inr (Fin (3602879701896397 / 2 ^ 55)) \<and>
   loc_at tenth_similarity ''c'' ''b'' = Inr (Fin (3602879701896397 / 2 ^ 55)) \<and>
   loc_at tenth_ratings ''a'' ''item'' = Inr (Fin 3) \<and>
   loc_at tenth_ratings ''b'' ''item'' = Inr (Fin 3) \<and>
   prediction64 tenth_similarity tenth_ratings ''c'' ''a'' ''b'' ''item'' =
     Inr (Fin (3 + 1 / 2 ^ 51))"
  by (simp add: prediction64_def tenth_entries lift2_Inr round64_binades rne_def Let_def)

text \<open>
  Claim C10, amended. For the two peers that the notebooks weight, with similarities
  between \<open>2^-100\<close> and \<open>2^100\<close> and ratings that are zero or between \<open>2^-100\<close> and
  \<open>2^100\<close>, the uncentred prediction in double precision is a finite number between the
  least rating times \<open>1 - 2^-50\<close> and the greatest rating times \<open>1 + 2^-50\<close>. When
  both peers give the same rating and it is a power of two \<open>2^k\<close> with \<open>k\<close> from -100 to
  100, as the 4 of the notebooks' cells for \<open>item-6\<close>, and the similarities are
  doubles, the prediction is exactly that rating.
\<close>

theorem prediction64_bounds:
  fixes a b r1 r2 :: real
  assumes sim: "loc_at sim t p1 = Inr (Fin a)" "loc_at sim t p2 = Inr (Fin b)"
    and rat: "loc_at df p1 i = Inr (Fin r1)" "loc_at df p2 i = Inr (Fin r2)"
    and a: "1 / 2 ^ 100 \<le> a" "a \<le> 2 ^ 100"
    and b: "1 / 2 ^ 100 \<le> b" "b \<le> 2 ^ 100"
    and r1: "r1 = 0 \<or> (1 / 2 ^ 100 \<le> r1 \<and> r1 \<le> 2 ^ 100)"
    and r2: "r2 = 0 \<or> (1 / 2 ^ 100 \<le> r2 \<and> r2 \<le> 2 ^ 100)"
  shows "\<exists>v. prediction64 sim df t p1 p2 i = Inr (Fin v) \<and>
             min r1 r2 * (1 - 1 / 2 ^ 50) \<le> v \<and> v \<le> max r1 r2 * (1 + 1 / 2 ^ 50) \<and>
             (r1 = 2 powi k \<and> r2 = 2 powi k \<and> - 100 \<le> k \<and> k \<le> 100 \<and>
              round64 a = Fin a \<and> round64 b = Fin b \<longrightarrow> v = 2 powi k)"
proof -
  from prediction64_within [OF assms] obtain v
    where v: "prediction64 sim df t p1 p2 i = Inr (Fin v)"
      "min r1 r2 * (1 - 1 / 2 ^ 50) \<le> v" "v \<le> max r1 r2 * (1 + 1 / 2 ^ 50)" by blast
  have "v = 2 powi k"
    if "r1 = 2 powi k \<and> r2 = 2 powi k \<and> - 100 \<le> k \<and> k \<le> 100 \<and>
        round64 a = Fin a \<and> round64 b = Fin b"
  proof -
    from that rat have rat': "loc_at df p1 i = Inr (Fin (2 powi k))"
      "loc_at df p2 i = Inr (Fin (2 powi k))" by simp_all
    from that have k: "- 100 \<le> k" "k \<le> 100" and rep: "round64 a = Fin a" "round64 b = Fin b"
      by simp_all
    from prediction64_power_of_two [OF sim rat' a b k rep] v(1) show ?thesis by simp
  qed
  with v show ?thesis by blast
qed

theorem prediction64_bounds_witness:
  "(\<exists>v. prediction64 tenth_similarity opposed_ratings ''c'' ''a'' ''b'' ''item'' = Inr (Fin v) \<and>
        2 * (1 - 1 / 2 ^ 50) \<le> v \<and> v \<le> 4 * (1 + 1 / 2 ^ 50)) \<and>
   prediction64 tenth_similarity level_ratings ''c'' ''a'' ''b'' ''item'' = Inr (Fin 4)"
proof -
  have a: "(1::real) / 2 ^ 100 \<le> 3602879701896397 / 2 ^ 55"
    "(3602879701896397::real) / 2 ^ 55 \<le> 2 ^ 100" by simp_all
  have r1: "(4::real) = 0 \<or> (1 / 2 ^ 100 \<le> (4::real) \<and> (4::real) \<le> 2 ^ 100)"
    and r2: "(2::real) = 0 \<or> (1 / 2 ^ 100 \<le> (2::real) \<and> (2::real) \<le> 2 ^ 100)"
    by simp_all
  from prediction64_bounds [OF tenth_entries(1,2) opposed_entries(4,5) a a r1 r2]
  have first: "\<exists>v. prediction64 tenth_similarity opposed_ratings ''c'' ''a'' ''b'' ''item'' = Inr (Fin v) \<and>
        2 * (1 - 1 / 2 ^ 50) \<le> v \<and> v \<le> 4 * (1 + 1 / 2 ^ 50)"
    by auto
  from prediction64_bounds [OF tenth_entries(1,2) level_entries a a r1 r1, of 2]
  have "prediction64 tenth_similarity level_ratings ''c'' ''a'' ''b'' ''item'' = Inr (Fin 4)"
    using round64_tenth by auto
  with first show ?thesis ..
qed

end
